theory Spec2Isabelle
  imports Complex_Main
begin

section \<open>CSIP: a C facade over the SCIP solver (src/src/csip.c)\<close>

text \<open>
  The wrapper keeps a small struct (\<open>struct csip_model\<close>) next to an engine
  instance (\<open>SCIP *\<close>) and forwards every operation to the engine. The engine
  is an external library: its operations are taken as parameters (the record
  \<open>SCIP_API\<close> below, over an arbitrary engine state \<open>'s\<close>), so that every
  theorem holds for any engine, and what a theorem needs from the engine
  is a visible hypothesis.
\<close>

subsection \<open>C values\<close>

text \<open>
  A C \<open>double\<close>. The wrapper only negates doubles (\<open>-1.0 * x\<close>, \<open>-x\<close>),
  compares them with the constants \<open>0.0\<close> and \<open>1.0\<close>, converts a small
  \<open>int\<close> and stores \<open>strtod("NaN")\<close>; all of these are exact in IEEE 754,
  so a finite double is its real value (the two zeros are not told apart).
\<close>

datatype double = Fin real | PInf | NInf | NaN

fun dneg :: "double \<Rightarrow> double" where
  "dneg (Fin r) = Fin (- r)"
| "dneg PInf = NInf"
| "dneg NInf = PInf"
| "dneg NaN = NaN"

text \<open>C's \<open><\<close> on doubles: false as soon as one side is NaN.\<close>

fun dless :: "double \<Rightarrow> double \<Rightarrow> bool" where
  "dless NaN y = False"
| "dless x NaN = False"
| "dless PInf y = False"
| "dless x NInf = False"
| "dless NInf y = True"
| "dless x PInf = True"
| "dless (Fin a) (Fin b) = (a < b)"

text \<open>The implicit conversion of an \<open>int\<close> to \<open>double\<close> (exact for 32-bit ints).\<close>

definition double_of_int :: "int \<Rightarrow> double" where
  "double_of_int i = Fin (of_int i)"

text \<open>
  A call either returns, or stops at a failed \<open>assert\<close>, or runs into
  undefined behaviour (a read through a NULL or uninitialised pointer, an
  access outside an allocated block).
\<close>

datatype 'a outcome = Returns 'a | AssertFailed | Undefined

text \<open>
  Engine objects are reached through pointers; a handle stands for the
  pointer, \<open>None\<close> for \<open>NULL\<close>.
\<close>

type_synonym SCIP_VAR = nat
type_synonym SCIP_CONS = nat
type_synonym SCIP_SOL = nat

subsection \<open>Enumerations\<close>

text \<open>
  The engine's enumerations (scip/type_retcode.h, type_stat.h, type_result.h,
  type_set.h). The wrapper's \<open>switch\<close> statements have a \<open>default\<close> branch,
  so each type has a constructor for the values the source does not name.
\<close>

datatype SCIP_RETCODE = SCIP_OKAY | SCIP_ERROR | SCIP_NOMEMORY | SCIP_RETCODE_OTHER int

datatype SCIP_STATUS =
    SCIP_STATUS_UNKNOWN
  | SCIP_STATUS_USERINTERRUPT
  | SCIP_STATUS_NODELIMIT
  | SCIP_STATUS_TOTALNODELIMIT
  | SCIP_STATUS_STALLNODELIMIT
  | SCIP_STATUS_TIMELIMIT
  | SCIP_STATUS_MEMLIMIT
  | SCIP_STATUS_GAPLIMIT
  | SCIP_STATUS_SOLLIMIT
  | SCIP_STATUS_BESTSOLLIMIT
  | SCIP_STATUS_RESTARTLIMIT
  | SCIP_STATUS_OPTIMAL
  | SCIP_STATUS_INFEASIBLE
  | SCIP_STATUS_UNBOUNDED
  | SCIP_STATUS_INFORUNBD
  | SCIP_STATUS_OTHER int

datatype SCIP_RESULT =
    SCIP_FEASIBLE | SCIP_INFEASIBLE | SCIP_CONSADDED
  | SCIP_DIDNOTFIND | SCIP_FOUNDSOL | SCIP_RESULT_OTHER int

datatype SCIP_STAGE = SCIP_STAGE_SOLVED | SCIP_STAGE_OTHER int

datatype SCIP_OBJSENSE = SCIP_OBJSENSE_MAXIMIZE | SCIP_OBJSENSE_MINIMIZE

text \<open>
  The wrapper's enumerations are declared in csip.h, which is not among the
  sources; the constants the source names are the constructors.
\<close>

datatype CSIP_RETCODE = CSIP_RETCODE_OK | CSIP_RETCODE_ERROR | CSIP_RETCODE_NOMEMORY

datatype CSIP_STATUS =
    CSIP_STATUS_OPTIMAL
  | CSIP_STATUS_INFEASIBLE
  | CSIP_STATUS_UNBOUNDED
  | CSIP_STATUS_INFORUNBD
  | CSIP_STATUS_NODELIMIT
  | CSIP_STATUS_TIMELIMIT
  | CSIP_STATUS_MEMLIMIT
  | CSIP_STATUS_USERLIMIT
  | CSIP_STATUS_UNKNOWN

datatype CSIP_VARTYPE =
    CSIP_VARTYPE_BINARY | CSIP_VARTYPE_INTEGER
  | CSIP_VARTYPE_IMPLINT | CSIP_VARTYPE_CONTINUOUS

text \<open>\<open>retCodeSCIPtoCSIP\<close> and \<open>retCodeCSIPtoSCIP\<close> (lines 8-33).\<close>

fun retCodeSCIPtoCSIP :: "SCIP_RETCODE \<Rightarrow> CSIP_RETCODE" where
  "retCodeSCIPtoCSIP SCIP_OKAY = CSIP_RETCODE_OK"
| "retCodeSCIPtoCSIP SCIP_NOMEMORY = CSIP_RETCODE_NOMEMORY"
| "retCodeSCIPtoCSIP _ = CSIP_RETCODE_ERROR"

fun retCodeCSIPtoSCIP :: "CSIP_RETCODE \<Rightarrow> SCIP_RETCODE" where
  "retCodeCSIPtoSCIP CSIP_RETCODE_OK = SCIP_OKAY"
| "retCodeCSIPtoSCIP CSIP_RETCODE_NOMEMORY = SCIP_NOMEMORY"
| "retCodeCSIPtoSCIP _ = SCIP_ERROR"

subsection \<open>The model struct and the engine's interface\<close>

text \<open>
  \<open>struct csip_model\<close> (lines 57-86) without its \<open>scip\<close> pointer: the engine
  instance it points to is the state \<open>'s\<close>, passed next to the struct. An
  array is the list of its slots, \<open>None\<close> for a slot never written, and the
  pointer to it is \<open>None\<close> when it is \<open>NULL\<close>. The counters are C \<open>int\<close>s
  that start at 0 and only grow; their overflow is not modelled.
\<close>

record CSIP_MODEL =
  nvars :: nat
  varssize :: nat
  vars :: "SCIP_VAR option list option"
  nconss :: nat
  consssize :: nat
  conss :: "SCIP_CONS option list option"
  nlazycb :: nat
  nheur :: nat
  sense :: SCIP_OBJSENSE
  initialsol :: "SCIP_SOL option"
  status :: CSIP_STATUS
  objbound :: double

text \<open>
  The engine calls the wrapper makes. A call that can change the engine
  returns the new state; an out-parameter is returned next to the return
  code. The search runs the registered callbacks, which hold the model
  pointer, so \<open>SCIPsolve\<close> takes and returns the struct as well.
\<close>

record 's SCIP_API =
  SCIPgetStatus :: "'s \<Rightarrow> SCIP_STATUS"
  SCIPgetStage :: "'s \<Rightarrow> SCIP_STAGE"
  SCIPgetDualbound :: "'s \<Rightarrow> double"
  SCIPgetBestSol :: "'s \<Rightarrow> SCIP_SOL option"
  SCIPgetSolOrigObj :: "'s \<Rightarrow> SCIP_SOL \<Rightarrow> double"
  SCIPgetSolVal :: "'s \<Rightarrow> SCIP_SOL option \<Rightarrow> SCIP_VAR \<Rightarrow> double"
  SCIPvarGetObj :: "'s \<Rightarrow> SCIP_VAR \<Rightarrow> double"
  SCIPvarGetLbLocal :: "'s \<Rightarrow> SCIP_VAR \<Rightarrow> double"
  SCIPvarGetUbLocal :: "'s \<Rightarrow> SCIP_VAR \<Rightarrow> double"
  SCIPcreate :: "SCIP_RETCODE \<times> 's"
  SCIPincludeDefaultPlugins :: "'s \<Rightarrow> SCIP_RETCODE \<times> 's"
  SCIPcreateProbBasic :: "'s \<Rightarrow> SCIP_RETCODE \<times> 's"
  SCIPcreateVarBasic ::
    "'s \<Rightarrow> double \<Rightarrow> double \<Rightarrow> double \<Rightarrow> CSIP_VARTYPE \<Rightarrow> SCIP_RETCODE \<times> SCIP_VAR \<times> 's"
  SCIPaddVar :: "'s \<Rightarrow> SCIP_VAR \<Rightarrow> SCIP_RETCODE \<times> 's"
  SCIPchgVarObj :: "'s \<Rightarrow> SCIP_VAR \<Rightarrow> double \<Rightarrow> SCIP_RETCODE \<times> 's"
  SCIPchgVarLb :: "'s \<Rightarrow> SCIP_VAR \<Rightarrow> double \<Rightarrow> SCIP_RETCODE \<times> 's"
  SCIPchgVarUb :: "'s \<Rightarrow> SCIP_VAR \<Rightarrow> double \<Rightarrow> SCIP_RETCODE \<times> 's"
  SCIPchgVarType :: "'s \<Rightarrow> SCIP_VAR \<Rightarrow> CSIP_VARTYPE \<Rightarrow> SCIP_RETCODE \<times> bool \<times> 's"
  SCIPcreateConsBasicLinear :: "'s \<Rightarrow> double \<Rightarrow> double \<Rightarrow> SCIP_RETCODE \<times> SCIP_CONS \<times> 's"
  SCIPaddCoefLinear :: "'s \<Rightarrow> SCIP_CONS \<Rightarrow> SCIP_VAR \<Rightarrow> double \<Rightarrow> SCIP_RETCODE \<times> 's"
  SCIPaddCons :: "'s \<Rightarrow> SCIP_CONS \<Rightarrow> SCIP_RETCODE \<times> 's"
  SCIPcheckCons :: "'s \<Rightarrow> SCIP_CONS \<Rightarrow> SCIP_SOL option \<Rightarrow> SCIP_RETCODE \<times> SCIP_RESULT \<times> 's"
  SCIPreleaseCons :: "'s \<Rightarrow> SCIP_CONS \<Rightarrow> SCIP_RETCODE \<times> 's"
  SCIPaddSolFree :: "'s \<Rightarrow> SCIP_SOL \<Rightarrow> SCIP_RETCODE \<times> SCIP_SOL option \<times> bool \<times> 's"
  SCIPtrySolFree :: "'s \<Rightarrow> SCIP_SOL \<Rightarrow> SCIP_RETCODE \<times> SCIP_SOL option \<times> bool \<times> 's"
  SCIPcreateSol :: "'s \<Rightarrow> nat option \<Rightarrow> SCIP_RETCODE \<times> SCIP_SOL option \<times> 's"
  SCIPsetSolVals ::
    "'s \<Rightarrow> SCIP_SOL option \<Rightarrow> nat \<Rightarrow> SCIP_VAR option list option \<Rightarrow> double list
      \<Rightarrow> SCIP_RETCODE \<times> 's"
  SCIPsolve :: "CSIP_MODEL \<Rightarrow> 's \<Rightarrow> SCIP_RETCODE \<times> CSIP_MODEL \<times> 's"
  SCIPfreeTransform :: "'s \<Rightarrow> SCIP_RETCODE \<times> 's"

subsection \<open>Memory\<close>

text \<open>Sequencing of calls that may not return.\<close>

fun obind :: "'a outcome \<Rightarrow> ('a \<Rightarrow> 'b outcome) \<Rightarrow> 'b outcome" where
  "obind (Returns v) f = f v"
| "obind AssertFailed f = AssertFailed"
| "obind Undefined f = Undefined"

text \<open>\<open>p[i]\<close> as a value: defined when \<open>p\<close> is not NULL, \<open>i\<close> is inside the
  block and the slot has been written.\<close>

definition array_read :: "'a option list option \<Rightarrow> int \<Rightarrow> 'a outcome" where
  "array_read p i =
     (case p of
        None \<Rightarrow> Undefined
      | Some slots \<Rightarrow>
          if 0 \<le> i \<and> nat i < length slots
          then (case slots ! nat i of None \<Rightarrow> Undefined | Some v \<Rightarrow> Returns v)
          else Undefined)"

text \<open>\<open>p[i] = v\<close>.\<close>

definition array_write ::
  "'a option list option \<Rightarrow> nat \<Rightarrow> 'a \<Rightarrow> 'a option list option outcome" where
  "array_write p i v =
     (case p of
        None \<Rightarrow> Undefined
      | Some slots \<Rightarrow>
          if i < length slots then Returns (Some (slots[i := Some v])) else Undefined)"

text \<open>
  \<open>malloc(n * sizeof(T *))\<close> and \<open>realloc(p, n * sizeof(T *))\<close>. Whether the
  allocator finds the memory is not the program's choice: \<open>ok\<close> says so.
  A successful \<open>realloc\<close> keeps the old contents up to the new size; a
  failed one returns NULL (and leaves the old block allocated).
\<close>

definition malloc :: "bool \<Rightarrow> nat \<Rightarrow> 'a option list option" where
  "malloc ok n = (if ok then Some (replicate n None) else None)"

definition realloc :: "bool \<Rightarrow> 'a option list option \<Rightarrow> nat \<Rightarrow> 'a option list option" where
  "realloc ok p n =
     (if ok
      then (case p of
              None \<Rightarrow> Some (replicate n None)
            | Some slots \<Rightarrow> Some (take n slots @ replicate (n - length slots) None))
      else None)"

definition INITIALSIZE :: nat where
  "INITIALSIZE = 64"

definition GROWFACTOR :: nat where
  "GROWFACTOR = 2"

subsection \<open>Local methods (lines 92-205)\<close>

text \<open>The \<open>switch\<close> of \<open>getStatus\<close>, and \<open>getStatus\<close> itself.\<close>

fun getStatus_switch :: "SCIP_STATUS \<Rightarrow> CSIP_STATUS" where
  "getStatus_switch SCIP_STATUS_UNKNOWN = CSIP_STATUS_UNKNOWN"
| "getStatus_switch SCIP_STATUS_USERINTERRUPT = CSIP_STATUS_USERLIMIT"
| "getStatus_switch SCIP_STATUS_NODELIMIT = CSIP_STATUS_NODELIMIT"
| "getStatus_switch SCIP_STATUS_TOTALNODELIMIT = CSIP_STATUS_NODELIMIT"
| "getStatus_switch SCIP_STATUS_STALLNODELIMIT = CSIP_STATUS_USERLIMIT"
| "getStatus_switch SCIP_STATUS_TIMELIMIT = CSIP_STATUS_TIMELIMIT"
| "getStatus_switch SCIP_STATUS_MEMLIMIT = CSIP_STATUS_MEMLIMIT"
| "getStatus_switch SCIP_STATUS_GAPLIMIT = CSIP_STATUS_USERLIMIT"
| "getStatus_switch SCIP_STATUS_SOLLIMIT = CSIP_STATUS_USERLIMIT"
| "getStatus_switch SCIP_STATUS_BESTSOLLIMIT = CSIP_STATUS_USERLIMIT"
| "getStatus_switch SCIP_STATUS_RESTARTLIMIT = CSIP_STATUS_USERLIMIT"
| "getStatus_switch SCIP_STATUS_OPTIMAL = CSIP_STATUS_OPTIMAL"
| "getStatus_switch SCIP_STATUS_INFEASIBLE = CSIP_STATUS_INFEASIBLE"
| "getStatus_switch SCIP_STATUS_UNBOUNDED = CSIP_STATUS_UNBOUNDED"
| "getStatus_switch SCIP_STATUS_INFORUNBD = CSIP_STATUS_INFORUNBD"
| "getStatus_switch _ = CSIP_STATUS_UNKNOWN"

definition getStatus :: "'s SCIP_API \<Rightarrow> 's \<Rightarrow> CSIP_STATUS" where
  "getStatus E s = getStatus_switch (SCIPgetStatus E s)"

text \<open>
  \<open>createLinCons\<close>. The arrays \<open>indices[0..numindices)\<close> and
  \<open>coefs[0..numindices)\<close> are the list of their pairs. The first function
  is the \<open>for\<close> loop; \<open>SCIP_in_CSIP\<close> returns at the first code that
  is not OK.
\<close>

fun createLinCons_loop ::
  "'s SCIP_API \<Rightarrow> CSIP_MODEL \<Rightarrow> SCIP_CONS \<Rightarrow> (int \<times> double) list \<Rightarrow> 's
    \<Rightarrow> (CSIP_RETCODE \<times> 's) outcome" where
  "createLinCons_loop E m cons [] s = Returns (CSIP_RETCODE_OK, s)"
| "createLinCons_loop E m cons ((i, coef) # rest) s =
     obind (array_read (vars m) i) (\<lambda>var.
       case SCIPaddCoefLinear E s cons var coef of (rc, s') \<Rightarrow>
         if retCodeSCIPtoCSIP rc \<noteq> CSIP_RETCODE_OK
         then Returns (retCodeSCIPtoCSIP rc, s')
         else createLinCons_loop E m cons rest s')"

definition createLinCons ::
  "'s SCIP_API \<Rightarrow> CSIP_MODEL \<Rightarrow> (int \<times> double) list \<Rightarrow> double \<Rightarrow> double \<Rightarrow> 's
    \<Rightarrow> (CSIP_RETCODE \<times> SCIP_CONS \<times> 's) outcome" where
  "createLinCons E m terms lhs rhs s =
     (case SCIPcreateConsBasicLinear E s lhs rhs of (rc, cons, s1) \<Rightarrow>
        if retCodeSCIPtoCSIP rc \<noteq> CSIP_RETCODE_OK
        then Returns (retCodeSCIPtoCSIP rc, cons, s1)
        else obind (createLinCons_loop E m cons terms s1) (\<lambda>(rc', s2).
               Returns (rc', cons, s2)))"

text \<open>
  \<open>addCons\<close>. \<open>want_idx\<close> is \<open>idx != NULL\<close>; the index written to \<open>*idx\<close>
  is returned. \<open>grow_ok\<close> is whether the \<open>realloc\<close>, if it is called,
  finds the memory.
\<close>

definition addCons ::
  "'s SCIP_API \<Rightarrow> bool \<Rightarrow> CSIP_MODEL \<Rightarrow> SCIP_CONS \<Rightarrow> bool \<Rightarrow> 's
    \<Rightarrow> (CSIP_RETCODE \<times> nat option \<times> CSIP_MODEL \<times> 's) outcome" where
  "addCons E grow_ok m cons want_idx s =
     (case SCIPaddCons E s cons of (rc, s1) \<Rightarrow>
        if retCodeSCIPtoCSIP rc \<noteq> CSIP_RETCODE_OK
        then Returns (retCodeSCIPtoCSIP rc, None, m, s1)
        else
          let m1 = (if nconss m \<ge> consssize m
                    then m\<lparr>consssize := GROWFACTOR * consssize m,
                           conss := realloc grow_ok (conss m) (GROWFACTOR * consssize m)\<rparr>
                    else m)
          in if nconss m \<ge> consssize m \<and> conss m1 = None
             then Returns (CSIP_RETCODE_NOMEMORY, None, m1, s1)
             else obind (array_write (conss m1) (nconss m1) cons) (\<lambda>buf.
                    Returns (CSIP_RETCODE_OK,
                             (if want_idx then Some (nconss m1) else None),
                             m1\<lparr>conss := buf, nconss := nconss m1 + 1\<rparr>, s1)))"

text \<open>\<open>reformSenseMinimize\<close>: the loop over \<open>i = 0 .. nvars - 1\<close>, then the function.\<close>

fun reformSenseMinimize_loop ::
  "'s SCIP_API \<Rightarrow> CSIP_MODEL \<Rightarrow> nat list \<Rightarrow> 's \<Rightarrow> (CSIP_RETCODE \<times> 's) outcome" where
  "reformSenseMinimize_loop E m [] s = Returns (CSIP_RETCODE_OK, s)"
| "reformSenseMinimize_loop E m (i # rest) s =
     obind (array_read (vars m) (int i)) (\<lambda>var.
       let coef = SCIPvarGetObj E s var in
       case SCIPchgVarObj E s var (dneg coef) of (rc, s') \<Rightarrow>
         if retCodeSCIPtoCSIP rc \<noteq> CSIP_RETCODE_OK
         then Returns (retCodeSCIPtoCSIP rc, s')
         else reformSenseMinimize_loop E m rest s')"

definition reformSenseMinimize ::
  "'s SCIP_API \<Rightarrow> CSIP_MODEL \<Rightarrow> 's \<Rightarrow> (CSIP_RETCODE \<times> 's) outcome" where
  "reformSenseMinimize E m s =
     (if sense m = SCIP_OBJSENSE_MAXIMIZE
      then reformSenseMinimize_loop E m [0 ..< nvars m] s
      else Returns (CSIP_RETCODE_OK, s))"

subsection \<open>Interface methods (lines 210-637)\<close>

text \<open>
  \<open>CSIPcreateModel\<close>. The three flags say whether the three \<open>malloc\<close>
  calls find the memory. \<open>CSIPsetParameter\<close> is declared in csip.h, which
  is not among the sources: its effect on the engine is the argument
  \<open>setParameter\<close>. A call that does not return OK leaves a struct
  with unset fields behind; no model is returned for it.
\<close>

definition CSIPcreateModel ::
  "'s SCIP_API \<Rightarrow> bool \<Rightarrow> bool \<Rightarrow> bool \<Rightarrow> (string \<Rightarrow> int \<Rightarrow> 's \<Rightarrow> CSIP_RETCODE \<times> 's)
    \<Rightarrow> CSIP_RETCODE \<times> (CSIP_MODEL \<times> 's) option" where
  "CSIPcreateModel E model_ok vars_ok conss_ok setParameter =
     (if \<not> model_ok then (CSIP_RETCODE_NOMEMORY, None)
      else case SCIPcreate E of (rc0, s0) \<Rightarrow>
        if retCodeSCIPtoCSIP rc0 \<noteq> CSIP_RETCODE_OK then (retCodeSCIPtoCSIP rc0, None)
        else case SCIPincludeDefaultPlugins E s0 of (rc1, s1) \<Rightarrow>
        if retCodeSCIPtoCSIP rc1 \<noteq> CSIP_RETCODE_OK then (retCodeSCIPtoCSIP rc1, None)
        else case SCIPcreateProbBasic E s1 of (rc2, s2) \<Rightarrow>
        if retCodeSCIPtoCSIP rc2 \<noteq> CSIP_RETCODE_OK then (retCodeSCIPtoCSIP rc2, None)
        else if malloc vars_ok INITIALSIZE = (None :: SCIP_VAR option list option)
        then (CSIP_RETCODE_NOMEMORY, None)
        else if malloc conss_ok INITIALSIZE = (None :: SCIP_CONS option list option)
        then (CSIP_RETCODE_NOMEMORY, None)
        else
          let model = \<lparr> nvars = 0, varssize = INITIALSIZE, vars = malloc vars_ok INITIALSIZE,
                        nconss = 0, consssize = INITIALSIZE, conss = malloc conss_ok INITIALSIZE,
                        nlazycb = 0, nheur = 0, sense = SCIP_OBJSENSE_MINIMIZE,
                        initialsol = None, status = CSIP_STATUS_UNKNOWN, objbound = NaN \<rparr>
          in case setParameter ''display/width'' 80 s2 of (rc3, s3) \<Rightarrow>
               if rc3 \<noteq> CSIP_RETCODE_OK then (rc3, None)
               else (CSIP_RETCODE_OK, Some (model, s3)))"

text \<open>\<open>CSIPaddVar\<close>; \<open>want_idx\<close> and \<open>grow_ok\<close> as in \<open>addCons\<close>.\<close>

definition CSIPaddVar ::
  "'s SCIP_API \<Rightarrow> bool \<Rightarrow> CSIP_MODEL \<Rightarrow> double \<Rightarrow> double \<Rightarrow> CSIP_VARTYPE \<Rightarrow> bool \<Rightarrow> 's
    \<Rightarrow> (CSIP_RETCODE \<times> nat option \<times> CSIP_MODEL \<times> 's) outcome" where
  "CSIPaddVar E grow_ok m lowerbound upperbound vartype want_idx s =
     (case SCIPcreateVarBasic E s lowerbound upperbound (Fin 0) vartype of (rc1, var, s1) \<Rightarrow>
        if retCodeSCIPtoCSIP rc1 \<noteq> CSIP_RETCODE_OK
        then Returns (retCodeSCIPtoCSIP rc1, None, m, s1)
        else case SCIPaddVar E s1 var of (rc2, s2) \<Rightarrow>
        if retCodeSCIPtoCSIP rc2 \<noteq> CSIP_RETCODE_OK
        then Returns (retCodeSCIPtoCSIP rc2, None, m, s2)
        else
          let m1 = (if nvars m \<ge> varssize m
                    then m\<lparr>varssize := GROWFACTOR * varssize m,
                           vars := realloc grow_ok (vars m) (GROWFACTOR * varssize m)\<rparr>
                    else m)
          in if nvars m \<ge> varssize m \<and> vars m1 = None
             then Returns (CSIP_RETCODE_NOMEMORY, None, m1, s2)
             else obind (array_write (vars m1) (nvars m1) var) (\<lambda>buf.
                    Returns (CSIP_RETCODE_OK,
                             (if want_idx then Some (nvars m1) else None),
                             m1\<lparr>vars := buf, nvars := nvars m1 + 1\<rparr>, s2)))"

text \<open>\<open>CSIPchgVarType\<close>. The engine's \<open>infeas\<close> flag is ignored, as in the source.\<close>

definition CSIPchgVarType ::
  "'s SCIP_API \<Rightarrow> CSIP_MODEL \<Rightarrow> int \<Rightarrow> CSIP_VARTYPE \<Rightarrow> 's \<Rightarrow> (CSIP_RETCODE \<times> 's) outcome" where
  "CSIPchgVarType E m varindex vartype s =
     obind (array_read (vars m) varindex) (\<lambda>var.
       case SCIPchgVarType E s var vartype of (rc1, infeas, s1) \<Rightarrow>
         if retCodeSCIPtoCSIP rc1 \<noteq> CSIP_RETCODE_OK then Returns (retCodeSCIPtoCSIP rc1, s1)
         else case (if vartype = CSIP_VARTYPE_BINARY \<and> dless (SCIPvarGetLbLocal E s1 var) (Fin 0)
                    then SCIPchgVarLb E s1 var (Fin 0) else (SCIP_OKAY, s1)) of (rc2, s2) \<Rightarrow>
         if retCodeSCIPtoCSIP rc2 \<noteq> CSIP_RETCODE_OK then Returns (retCodeSCIPtoCSIP rc2, s2)
         else case (if vartype = CSIP_VARTYPE_BINARY \<and> dless (Fin 1) (SCIPvarGetUbLocal E s2 var)
                    then SCIPchgVarUb E s2 var (Fin 1) else (SCIP_OKAY, s2)) of (rc3, s3) \<Rightarrow>
         if retCodeSCIPtoCSIP rc3 \<noteq> CSIP_RETCODE_OK then Returns (retCodeSCIPtoCSIP rc3, s3)
         else Returns (CSIP_RETCODE_OK, s3))"

text \<open>\<open>CSIPaddLinCons\<close>: \<open>CSIP_CALL\<close> returns at the first code that is not OK.\<close>

definition CSIPaddLinCons ::
  "'s SCIP_API \<Rightarrow> bool \<Rightarrow> CSIP_MODEL \<Rightarrow> (int \<times> double) list \<Rightarrow> double \<Rightarrow> double \<Rightarrow> bool \<Rightarrow> 's
    \<Rightarrow> (CSIP_RETCODE \<times> nat option \<times> CSIP_MODEL \<times> 's) outcome" where
  "CSIPaddLinCons E grow_ok m terms lhs rhs want_idx s =
     obind (createLinCons E m terms lhs rhs s) (\<lambda>(rc, cons, s1).
       if rc \<noteq> CSIP_RETCODE_OK then Returns (rc, None, m, s1)
       else addCons E grow_ok m cons want_idx s1)"

definition CSIPsetSenseMinimize :: "CSIP_MODEL \<Rightarrow> CSIP_RETCODE \<times> CSIP_MODEL" where
  "CSIPsetSenseMinimize m = (CSIP_RETCODE_OK, m\<lparr>sense := SCIP_OBJSENSE_MINIMIZE\<rparr>)"

definition CSIPsetSenseMaximize :: "CSIP_MODEL \<Rightarrow> CSIP_RETCODE \<times> CSIP_MODEL" where
  "CSIPsetSenseMaximize m = (CSIP_RETCODE_OK, m\<lparr>sense := SCIP_OBJSENSE_MAXIMIZE\<rparr>)"

text \<open>
  \<open>CSIPsolve\<close>, in the source's order. The first function is the block
  that hands a pending initial solution to the engine (\<open>SCIPaddSolFree\<close>
  writes the pointer it is given); the second is the rest of the function
  from the call of the search on: the two cached fields,
  \<open>SCIPfreeTransform\<close>, the second sense reform.
\<close>

definition CSIPsolve_initialsol ::
  "'s SCIP_API \<Rightarrow> CSIP_MODEL \<Rightarrow> 's \<Rightarrow> SCIP_RETCODE \<times> CSIP_MODEL \<times> 's" where
  "CSIPsolve_initialsol E m s =
     (case initialsol m of
        None \<Rightarrow> (SCIP_OKAY, m, s)
      | Some sol \<Rightarrow>
          (case SCIPaddSolFree E s sol of (rc, sol', stored, s') \<Rightarrow>
             (rc, m\<lparr>initialsol := sol'\<rparr>, s')))"

definition CSIPsolve_search ::
  "'s SCIP_API \<Rightarrow> CSIP_MODEL \<Rightarrow> 's \<Rightarrow> (CSIP_RETCODE \<times> CSIP_MODEL \<times> 's) outcome" where
  "CSIPsolve_search E m2 s2 =
     (case SCIPsolve E m2 s2 of (rc3, m3, s3) \<Rightarrow>
        if retCodeSCIPtoCSIP rc3 \<noteq> CSIP_RETCODE_OK then Returns (retCodeSCIPtoCSIP rc3, m3, s3)
        else
          let m4 = m3\<lparr>status := getStatus E s3\<rparr>;
              dual = SCIPgetDualbound E s3;
              m5 = m4\<lparr>objbound := (if sense m4 = SCIP_OBJSENSE_MINIMIZE then dual else dneg dual)\<rparr>
          in case SCIPfreeTransform E s3 of (rc4, s4) \<Rightarrow>
             if retCodeSCIPtoCSIP rc4 \<noteq> CSIP_RETCODE_OK
             then Returns (retCodeSCIPtoCSIP rc4, m5, s4)
             else obind (reformSenseMinimize E m5 s4) (\<lambda>(rc5, s5).
                    if rc5 \<noteq> CSIP_RETCODE_OK then Returns (rc5, m5, s5)
                    else Returns (CSIP_RETCODE_OK, m5, s5)))"

definition CSIPsolve ::
  "'s SCIP_API \<Rightarrow> CSIP_MODEL \<Rightarrow> 's \<Rightarrow> (CSIP_RETCODE \<times> CSIP_MODEL \<times> 's) outcome" where
  "CSIPsolve E m s =
     obind (reformSenseMinimize E m s) (\<lambda>(rc1, s1).
       if rc1 \<noteq> CSIP_RETCODE_OK then Returns (rc1, m, s1)
       else case CSIPsolve_initialsol E m s1 of (rc2, m2, s2) \<Rightarrow>
         if retCodeSCIPtoCSIP rc2 \<noteq> CSIP_RETCODE_OK
         then Returns (retCodeSCIPtoCSIP rc2, m2, s2)
         else CSIPsolve_search E m2 s2)"

definition CSIPgetStatus :: "CSIP_MODEL \<Rightarrow> CSIP_STATUS" where
  "CSIPgetStatus m = status m"

text \<open>
  \<open>CSIPgetObjValue\<close> returns a \<open>double\<close>; \<open>return CSIP_RETCODE_ERROR\<close>
  converts the integer constant. Its value is set in csip.h, which is not
  among the sources: \<open>code\<close> gives the integer of each return code.
\<close>

definition CSIPgetObjValue ::
  "'s SCIP_API \<Rightarrow> (CSIP_RETCODE \<Rightarrow> int) \<Rightarrow> CSIP_MODEL \<Rightarrow> 's \<Rightarrow> double" where
  "CSIPgetObjValue E code m s =
     (case SCIPgetBestSol E s of
        None \<Rightarrow> double_of_int (code CSIP_RETCODE_ERROR)
      | Some sol \<Rightarrow>
          let objval = SCIPgetSolOrigObj E s sol
          in if sense m = SCIP_OBJSENSE_MINIMIZE then objval else dneg objval)"

definition CSIPgetObjBound :: "CSIP_MODEL \<Rightarrow> double" where
  "CSIPgetObjBound m = objbound m"

definition CSIPgetNumVars :: "CSIP_MODEL \<Rightarrow> nat" where
  "CSIPgetNumVars m = nvars m"

subsection \<open>The constraint handler of a lazy callback (lines 644-858)\<close>

text \<open>
  \<open>struct SCIP_ConshdlrData\<close>, the session handed to the user's callback.
  Its \<open>model\<close> pointer is the struct passed next to it, and its
  \<open>callback\<close> is an argument of the handlers. A callback receives the
  model, the session and the user data, may call the engine, and returns a
  code.
\<close>

record SCIP_ConshdlrData =
  userdata :: nat
  checkonly :: bool
  feasible :: bool
  sol :: "SCIP_SOL option"

type_synonym 's CSIP_LAZYCALLBACK =
  "CSIP_MODEL \<Rightarrow> SCIP_ConshdlrData \<Rightarrow> nat \<Rightarrow> 's
    \<Rightarrow> (CSIP_RETCODE \<times> CSIP_MODEL \<times> SCIP_ConshdlrData \<times> 's) outcome"

text \<open>
  \<open>consEnfolpLazy\<close>. \<open>CSIP_in_SCIP\<close> returns the translated code at once
  when the callback's code is not OK; \<open>*result\<close> is then still the
  \<open>SCIP_FEASIBLE\<close> it was set to in the first statement.
\<close>

definition consEnfolpLazy ::
  "'s CSIP_LAZYCALLBACK \<Rightarrow> CSIP_MODEL \<Rightarrow> SCIP_ConshdlrData \<Rightarrow> 's
    \<Rightarrow> (SCIP_RETCODE \<times> SCIP_RESULT \<times> CSIP_MODEL \<times> SCIP_ConshdlrData \<times> 's) outcome" where
  "consEnfolpLazy callback m conshdlrdata s =
     (let d1 = conshdlrdata\<lparr>checkonly := False, feasible := True\<rparr>
      in obind (callback m d1 (userdata d1) s) (\<lambda>(rc, m', d2, s').
           if retCodeCSIPtoSCIP rc \<noteq> SCIP_OKAY
           then Returns (retCodeCSIPtoSCIP rc, SCIP_FEASIBLE, m', d2, s')
           else Returns (SCIP_OKAY,
                         (if \<not> feasible d2 then SCIP_CONSADDED else SCIP_FEASIBLE),
                         m', d2, s')))"

definition consEnfopsLazy ::
  "'s CSIP_LAZYCALLBACK \<Rightarrow> CSIP_MODEL \<Rightarrow> SCIP_ConshdlrData \<Rightarrow> 's
    \<Rightarrow> (SCIP_RETCODE \<times> SCIP_RESULT \<times> CSIP_MODEL \<times> SCIP_ConshdlrData \<times> 's) outcome" where
  "consEnfopsLazy callback m conshdlrdata s = consEnfolpLazy callback m conshdlrdata s"

text \<open>\<open>consCheckLazy\<close>; \<open>sol'\<close> is the engine's argument \<open>sol\<close>.\<close>

definition consCheckLazy ::
  "'s CSIP_LAZYCALLBACK \<Rightarrow> CSIP_MODEL \<Rightarrow> SCIP_ConshdlrData \<Rightarrow> SCIP_SOL option \<Rightarrow> 's
    \<Rightarrow> (SCIP_RETCODE \<times> SCIP_RESULT \<times> CSIP_MODEL \<times> SCIP_ConshdlrData \<times> 's) outcome" where
  "consCheckLazy callback m conshdlrdata sol' s =
     (let d1 = conshdlrdata\<lparr>checkonly := True, feasible := True, sol := sol'\<rparr>
      in obind (callback m d1 (userdata d1) s) (\<lambda>(rc, m', d2, s').
           if retCodeCSIPtoSCIP rc \<noteq> SCIP_OKAY
           then Returns (retCodeCSIPtoSCIP rc, SCIP_FEASIBLE, m', d2, s')
           else Returns (SCIP_OKAY,
                         (if \<not> feasible d2 then SCIP_INFEASIBLE else SCIP_FEASIBLE),
                         m', d2, s')))"

text \<open>
  \<open>CSIPcbGetVarValues\<close>: the loop filling \<open>output[0..nvars)\<close>, then the
  function, which returns the values written.
\<close>

fun CSIPcbGetVarValues_loop ::
  "'s SCIP_API \<Rightarrow> CSIP_MODEL \<Rightarrow> SCIP_SOL option \<Rightarrow> nat list \<Rightarrow> 's \<Rightarrow> double list outcome" where
  "CSIPcbGetVarValues_loop E m sl [] s = Returns []"
| "CSIPcbGetVarValues_loop E m sl (i # rest) s =
     obind (array_read (vars m) (int i)) (\<lambda>var.
       obind (CSIPcbGetVarValues_loop E m sl rest s) (\<lambda>out.
         Returns (SCIPgetSolVal E s sl var # out)))"

definition CSIPcbGetVarValues ::
  "'s SCIP_API \<Rightarrow> CSIP_MODEL \<Rightarrow> SCIP_ConshdlrData \<Rightarrow> 's \<Rightarrow> (CSIP_RETCODE \<times> double list) outcome" where
  "CSIPcbGetVarValues E m cbdata s =
     (let sl = (if checkonly cbdata then sol cbdata else None)
      in obind (CSIPcbGetVarValues_loop E m sl [0 ..< nvars m] s) (\<lambda>out.
           Returns (CSIP_RETCODE_OK, out)))"

text \<open>
  \<open>CSIPcbAddLinCons\<close>. The struct behind \<open>cbdata->model\<close> is returned
  with the session and the engine: the function holds a pointer to it.
\<close>

definition CSIPcbAddLinCons ::
  "'s SCIP_API \<Rightarrow> CSIP_MODEL \<Rightarrow> SCIP_ConshdlrData \<Rightarrow> (int \<times> double) list \<Rightarrow> double \<Rightarrow> double
    \<Rightarrow> int \<Rightarrow> 's \<Rightarrow> (CSIP_RETCODE \<times> CSIP_MODEL \<times> SCIP_ConshdlrData \<times> 's) outcome" where
  "CSIPcbAddLinCons E m cbdata terms lhs rhs islocal s =
     (let sl = (if checkonly cbdata then sol cbdata else None)
      in if SCIPgetStage E s = SCIP_STAGE_SOLVED
         then (if \<not> checkonly cbdata then AssertFailed
               else Returns (CSIP_RETCODE_OK, m, cbdata\<lparr>feasible := True\<rparr>, s))
         else obind (createLinCons E m terms lhs rhs s) (\<lambda>(rc1, cons, s1).
           if rc1 \<noteq> CSIP_RETCODE_OK then Returns (rc1, m, cbdata, s1)
           else case SCIPcheckCons E s1 cons sl of (rc2, result, s2) \<Rightarrow>
           if retCodeSCIPtoCSIP rc2 \<noteq> CSIP_RETCODE_OK
           then Returns (retCodeSCIPtoCSIP rc2, m, cbdata, s2)
           else
             let d1 = (if result = SCIP_INFEASIBLE then cbdata\<lparr>feasible := False\<rparr> else cbdata)
             in case (if \<not> checkonly d1 then SCIPaddCons E s2 cons else (SCIP_OKAY, s2))
                of (rc3, s3) \<Rightarrow>
                if retCodeSCIPtoCSIP rc3 \<noteq> CSIP_RETCODE_OK
                then Returns (retCodeSCIPtoCSIP rc3, m, d1, s3)
                else case SCIPreleaseCons E s3 cons of (rc4, s4) \<Rightarrow>
                if retCodeSCIPtoCSIP rc4 \<noteq> CSIP_RETCODE_OK
                then Returns (retCodeSCIPtoCSIP rc4, m, d1, s4)
                else Returns (CSIP_RETCODE_OK, m, d1, s4)))"

subsection \<open>The heuristic plugin (lines 860-961)\<close>

text \<open>
  \<open>struct SCIP_HeurData\<close>; the fields \<open>userdata\<close> and \<open>sol\<close> carry the
  prefix \<open>heur_\<close> here, the model and the callback are passed as for the
  constraint handler.
\<close>

record SCIP_HeurData =
  heur_userdata :: nat
  heur :: nat
  heur_sol :: "SCIP_SOL option"

type_synonym 's CSIP_HEURCALLBACK =
  "CSIP_MODEL \<Rightarrow> SCIP_HeurData \<Rightarrow> nat \<Rightarrow> 's
    \<Rightarrow> (CSIP_RETCODE \<times> CSIP_MODEL \<times> SCIP_HeurData \<times> 's) outcome"

text \<open>
  \<open>heurExecUser\<close>. \<open>SCIPtrySolFree\<close> is given the address of the slot and
  writes it; \<open>SCIP_CALL\<close> returns the engine's code at once when it is not
  \<open>SCIP_OKAY\<close>, before the last \<open>assert\<close>.
\<close>

definition heurExecUser ::
  "'s SCIP_API \<Rightarrow> 's CSIP_HEURCALLBACK \<Rightarrow> CSIP_MODEL \<Rightarrow> SCIP_HeurData \<Rightarrow> 's
    \<Rightarrow> (SCIP_RETCODE \<times> SCIP_RESULT \<times> CSIP_MODEL \<times> SCIP_HeurData \<times> 's) outcome" where
  "heurExecUser E callback m heurdata s =
     (if heur_sol heurdata \<noteq> None then AssertFailed
      else obind (callback m heurdata (heur_userdata heurdata) s) (\<lambda>(rc, m', h1, s1).
        if retCodeCSIPtoSCIP rc \<noteq> SCIP_OKAY
        then Returns (retCodeCSIPtoSCIP rc, SCIP_DIDNOTFIND, m', h1, s1)
        else case heur_sol h1 of
          None \<Rightarrow> Returns (SCIP_OKAY, SCIP_DIDNOTFIND, m', h1, s1)
        | Some candidate \<Rightarrow>
            (case SCIPtrySolFree E s1 candidate of (rc2, slot, stored, s2) \<Rightarrow>
               if rc2 \<noteq> SCIP_OKAY
               then Returns (rc2, SCIP_DIDNOTFIND, m', h1\<lparr>heur_sol := slot\<rparr>, s2)
               else if slot \<noteq> None then AssertFailed
               else Returns (SCIP_OKAY, (if stored then SCIP_FOUNDSOL else SCIP_DIDNOTFIND),
                             m', h1\<lparr>heur_sol := slot\<rparr>, s2))))"

text \<open>\<open>CSIPheurSetSolution\<close>: \<open>SCIPcreateSol\<close> writes the slot.\<close>

definition CSIPheurSetSolution ::
  "'s SCIP_API \<Rightarrow> CSIP_MODEL \<Rightarrow> SCIP_HeurData \<Rightarrow> double list \<Rightarrow> 's
    \<Rightarrow> (CSIP_RETCODE \<times> CSIP_MODEL \<times> SCIP_HeurData \<times> 's) outcome" where
  "CSIPheurSetSolution E m heurdata vals s =
     (case SCIPcreateSol E s (Some (heur heurdata)) of (rc1, slot, s1) \<Rightarrow>
        let h1 = heurdata\<lparr>heur_sol := slot\<rparr>
        in if retCodeSCIPtoCSIP rc1 \<noteq> CSIP_RETCODE_OK
           then Returns (retCodeSCIPtoCSIP rc1, m, h1, s1)
           else case SCIPsetSolVals E s1 (heur_sol h1) (nvars m) (vars m) vals of (rc2, s2) \<Rightarrow>
             if retCodeSCIPtoCSIP rc2 \<noteq> CSIP_RETCODE_OK
             then Returns (retCodeSCIPtoCSIP rc2, m, h1, s2)
             else Returns (CSIP_RETCODE_OK, m, h1, s2))"

subsection \<open>A stand-in engine\<close>

text \<open>
  The theorems below hold for every engine. To apply them at concrete
  inputs an engine is needed: this one keeps the attributes the wrapper
  reads and writes (objective coefficients, bounds, stage, status, dual
  bound, incumbent, the constraints attached) and nothing else. Its search
  ends at once with status optimal; discarding the transformed problem
  resets status and dual bound, as queries after the discard are no longer
  meaningful. \<open>e_verdict\<close> is what its constraint check answers and
  \<open>e_accept\<close> whether it stores a solution it is offered.
\<close>

record engine =
  e_obj :: "SCIP_VAR \<Rightarrow> double"
  e_lb :: "SCIP_VAR \<Rightarrow> double"
  e_ub :: "SCIP_VAR \<Rightarrow> double"
  e_stage :: SCIP_STAGE
  e_status :: SCIP_STATUS
  e_dual :: double
  e_best :: "SCIP_SOL option"
  e_bestobj :: double
  e_nvars :: nat
  e_nconss :: nat
  e_nsols :: nat
  e_added :: "SCIP_CONS list"
  e_verdict :: SCIP_RESULT
  e_accept :: bool

definition engine_init :: engine where
  "engine_init =
     \<lparr> e_obj = (\<lambda>v. Fin 0), e_lb = (\<lambda>v. Fin 0), e_ub = (\<lambda>v. Fin 0),
       e_stage = SCIP_STAGE_OTHER 1, e_status = SCIP_STATUS_UNKNOWN, e_dual = NInf,
       e_best = None, e_bestobj = Fin 0, e_nvars = 0, e_nconss = 0, e_nsols = 0, e_added = [],
       e_verdict = SCIP_FEASIBLE, e_accept = True \<rparr>"

definition engine_api :: "engine SCIP_API" where
  "engine_api =
     \<lparr> SCIPgetStatus = e_status,
       SCIPgetStage = e_stage,
       SCIPgetDualbound = e_dual,
       SCIPgetBestSol = e_best,
       SCIPgetSolOrigObj = (\<lambda>s sl. e_bestobj s),
       SCIPgetSolVal = (\<lambda>s sl v. Fin 0),
       SCIPvarGetObj = e_obj,
       SCIPvarGetLbLocal = e_lb,
       SCIPvarGetUbLocal = e_ub,
       SCIPcreate = (SCIP_OKAY, engine_init),
       SCIPincludeDefaultPlugins = (\<lambda>s. (SCIP_OKAY, s)),
       SCIPcreateProbBasic = (\<lambda>s. (SCIP_OKAY, s)),
       SCIPcreateVarBasic = (\<lambda>s lb ub obj vt.
         (SCIP_OKAY, e_nvars s,
          s\<lparr>e_obj := (e_obj s)(e_nvars s := obj), e_lb := (e_lb s)(e_nvars s := lb),
            e_ub := (e_ub s)(e_nvars s := ub), e_nvars := e_nvars s + 1\<rparr>)),
       SCIPaddVar = (\<lambda>s v. (SCIP_OKAY, s)),
       SCIPchgVarObj = (\<lambda>s v c. (SCIP_OKAY, s\<lparr>e_obj := (e_obj s)(v := c)\<rparr>)),
       SCIPchgVarLb = (\<lambda>s v c. (SCIP_OKAY, s\<lparr>e_lb := (e_lb s)(v := c)\<rparr>)),
       SCIPchgVarUb = (\<lambda>s v c. (SCIP_OKAY, s\<lparr>e_ub := (e_ub s)(v := c)\<rparr>)),
       SCIPchgVarType = (\<lambda>s v vt. (SCIP_OKAY, False, s)),
       SCIPcreateConsBasicLinear = (\<lambda>s lhs rhs.
         (SCIP_OKAY, e_nconss s, s\<lparr>e_nconss := e_nconss s + 1\<rparr>)),
       SCIPaddCoefLinear = (\<lambda>s c v coef. (SCIP_OKAY, s)),
       SCIPaddCons = (\<lambda>s c. (SCIP_OKAY, s\<lparr>e_added := e_added s @ [c]\<rparr>)),
       SCIPcheckCons = (\<lambda>s c sl. (SCIP_OKAY, e_verdict s, s)),
       SCIPreleaseCons = (\<lambda>s c. (SCIP_OKAY, s)),
       SCIPaddSolFree = (\<lambda>s sl. (SCIP_OKAY, None, e_accept s, s)),
       SCIPtrySolFree = (\<lambda>s sl. (SCIP_OKAY, None, e_accept s, s)),
       SCIPcreateSol = (\<lambda>s h. (SCIP_OKAY, Some (e_nsols s), s\<lparr>e_nsols := e_nsols s + 1\<rparr>)),
       SCIPsetSolVals = (\<lambda>s sl n vs vals. (SCIP_OKAY, s)),
       SCIPsolve = (\<lambda>m s.
         (SCIP_OKAY, m,
          s\<lparr>e_stage := SCIP_STAGE_SOLVED, e_status := SCIP_STATUS_OPTIMAL,
            e_dual := Fin 5, e_best := Some 0\<rparr>)),
       SCIPfreeTransform = (\<lambda>s.
         (SCIP_OKAY, s\<lparr>e_stage := SCIP_STAGE_OTHER 1, e_status := SCIP_STATUS_UNKNOWN,
                        e_dual := NInf\<rparr>)) \<rparr>"

text \<open>One assignment of integers to the return codes, for the concrete instances
  below (the header that fixes them is not among the sources).\<close>

fun retcode_value :: "CSIP_RETCODE \<Rightarrow> int" where
  "retcode_value CSIP_RETCODE_OK = 0"
| "retcode_value CSIP_RETCODE_ERROR = 1"
| "retcode_value CSIP_RETCODE_NOMEMORY = 2"

text \<open>A model with two variables stored, as two calls of \<open>CSIPaddVar\<close> leave it.\<close>

definition model2 :: CSIP_MODEL where
  "model2 =
     \<lparr> nvars = 2, varssize = INITIALSIZE,
       vars = Some ([Some 0, Some 1] @ replicate (INITIALSIZE - 2) None),
       nconss = 0, consssize = INITIALSIZE, conss = Some (replicate INITIALSIZE None),
       nlazycb = 0, nheur = 0, sense = SCIP_OBJSENSE_MAXIMIZE,
       initialsol = None, status = CSIP_STATUS_UNKNOWN, objbound = NaN \<rparr>"

definition engine2 :: engine where
  "engine2 =
     engine_init\<lparr>e_obj := (\<lambda>v. Fin 0)(0 := Fin 3, 1 := Fin (-2)),
                 e_lb := (\<lambda>v. Fin 0)(0 := Fin (-5), 1 := Fin 5),
                 e_ub := (\<lambda>v. Fin 0)(0 := Fin 10, 1 := Fin 10),
                 e_nvars := 2\<rparr>"

text \<open>A store filled to its initial capacity, as 64 calls of \<open>CSIPaddVar\<close> (and
  64 registered constraints) leave it.\<close>

definition model_full :: CSIP_MODEL where
  "model_full =
     \<lparr> nvars = INITIALSIZE, varssize = INITIALSIZE, vars = Some (map Some [0 ..< INITIALSIZE]),
       nconss = INITIALSIZE, consssize = INITIALSIZE,
       conss = Some (map Some [0 ..< INITIALSIZE]),
       nlazycb = 0, nheur = 0, sense = SCIP_OBJSENSE_MINIMIZE,
       initialsol = None, status = CSIP_STATUS_UNKNOWN, objbound = NaN \<rparr>"

text \<open>Sessions as the registration leaves them, and user callbacks written
  against the wrapper's callback interface.\<close>

definition session0 :: SCIP_ConshdlrData where
  "session0 = \<lparr> userdata = 0, checkonly = False, feasible = True, sol = None \<rparr>"

definition heurdata0 :: SCIP_HeurData where
  "heurdata0 = \<lparr> heur_userdata = 0, heur = 0, heur_sol = None \<rparr>"

text \<open>A callback that does nothing and returns OK.\<close>

definition cb_idle :: "engine CSIP_LAZYCALLBACK" where
  "cb_idle m cbdata u s = Returns (CSIP_RETCODE_OK, m, cbdata, s)"

text \<open>A callback that adds the cut \<open>x0 <= 0\<close> and returns what the call returned.\<close>

definition cb_cut :: "engine CSIP_LAZYCALLBACK" where
  "cb_cut m cbdata u s = CSIPcbAddLinCons engine_api m cbdata [(0, Fin 1)] NInf (Fin 0) 0 s"

text \<open>A callback that adds the same cut and then gives up with an error of its own.\<close>

definition cb_cut_then_fail :: "engine CSIP_LAZYCALLBACK" where
  "cb_cut_then_fail m cbdata u s =
     obind (CSIPcbAddLinCons engine_api m cbdata [(0, Fin 1)] NInf (Fin 0) 0 s)
       (\<lambda>(rc, m', d', s'). Returns (CSIP_RETCODE_ERROR, m', d', s'))"

text \<open>Heuristic callbacks: one that proposes nothing, one that installs the all-zero
  solution, one that installs it and then reports an error.\<close>

definition heur_idle :: "engine CSIP_HEURCALLBACK" where
  "heur_idle m heurdata u s = Returns (CSIP_RETCODE_OK, m, heurdata, s)"

definition heur_zero :: "engine CSIP_HEURCALLBACK" where
  "heur_zero m heurdata u s = CSIPheurSetSolution engine_api m heurdata [Fin 0, Fin 0] s"

definition heur_zero_then_fail :: "engine CSIP_HEURCALLBACK" where
  "heur_zero_then_fail m heurdata u s =
     obind (CSIPheurSetSolution engine_api m heurdata [Fin 0, Fin 0] s)
       (\<lambda>(rc, m', h', s'). Returns (CSIP_RETCODE_ERROR, m', h', s'))"

subsection \<open>What the theorems ask of the engine\<close>

text \<open>
  The variables stored in the model, read as the loops read them:
  \<open>vars[0], ..., vars[nvars - 1]\<close>.
\<close>

definition model_vars :: "CSIP_MODEL \<Rightarrow> SCIP_VAR outcome list" where
  "model_vars m = map (\<lambda>i. array_read (vars m) (int i)) [0 ..< nvars m]"

text \<open>
  Changing an objective coefficient sets that variable's coefficient and no
  other one.
\<close>

definition objective_lens :: "'s SCIP_API \<Rightarrow> bool" where
  "objective_lens E \<longleftrightarrow>
     (\<forall>s v c s'. SCIPchgVarObj E s v c = (SCIP_OKAY, s') \<longrightarrow>
        SCIPvarGetObj E s' v = c \<and>
        (\<forall>w. w \<noteq> v \<longrightarrow> SCIPvarGetObj E s' w = SCIPvarGetObj E s w))"

text \<open>
  Handing over a solution, searching and discarding the transformed problem
  leave the objective coefficients of the original problem alone, and the
  callbacks run by the search leave the model's sense and variable store
  alone.
\<close>

definition solve_keeps_objective :: "'s SCIP_API \<Rightarrow> bool" where
  "solve_keeps_objective E \<longleftrightarrow>
     (\<forall>s sl rc slot stored s'. SCIPaddSolFree E s sl = (rc, slot, stored, s') \<longrightarrow>
        SCIPvarGetObj E s' = SCIPvarGetObj E s) \<and>
     (\<forall>m s rc m' s'. SCIPsolve E m s = (rc, m', s') \<longrightarrow>
        SCIPvarGetObj E s' = SCIPvarGetObj E s \<and>
        sense m' = sense m \<and> nvars m' = nvars m \<and> vars m' = vars m) \<and>
     (\<forall>s rc s'. SCIPfreeTransform E s = (rc, s') \<longrightarrow>
        SCIPvarGetObj E s' = SCIPvarGetObj E s)"

text \<open>
  Changing a bound sets that bound of that variable and leaves its other
  bound alone.
\<close>

definition bounds_lens :: "'s SCIP_API \<Rightarrow> bool" where
  "bounds_lens E \<longleftrightarrow>
     (\<forall>s v c s'. SCIPchgVarLb E s v c = (SCIP_OKAY, s') \<longrightarrow>
        SCIPvarGetLbLocal E s' v = c \<and> SCIPvarGetUbLocal E s' v = SCIPvarGetUbLocal E s v) \<and>
     (\<forall>s v c s'. SCIPchgVarUb E s v c = (SCIP_OKAY, s') \<longrightarrow>
        SCIPvarGetUbLocal E s' v = c \<and> SCIPvarGetLbLocal E s' v = SCIPvarGetLbLocal E s v)"

text \<open>The engine of \<open>engine2\<close> when its constraint check answers infeasible, and a
  session in check mode for the candidate solution 7.\<close>

definition engine2_rejecting :: engine where
  "engine2_rejecting = engine2\<lparr>e_verdict := SCIP_INFEASIBLE\<rparr>"

definition session_check :: SCIP_ConshdlrData where
  "session_check = session0\<lparr>checkonly := True, sol := Some 7\<rparr>"

section \<open>Properties\<close>

subsection \<open>Auxiliary facts\<close>

lemma dneg_dneg: "dneg (dneg x) = x"
  by (cases x) simp_all

lemma obind_Returns_iff:
  "obind x f = Returns r \<longleftrightarrow> (\<exists>v. x = Returns v \<and> f v = Returns r)"
  by (cases x) auto

lemma retCodeSCIPtoCSIP_OK: "retCodeSCIPtoCSIP rc = CSIP_RETCODE_OK \<longleftrightarrow> rc = SCIP_OKAY"
  by (cases rc) auto

lemma retCodeCSIPtoSCIP_OKAY: "retCodeCSIPtoSCIP rc = SCIP_OKAY \<longleftrightarrow> rc = CSIP_RETCODE_OK"
  by (cases rc) auto

subsection \<open>Status translation\<close>

text \<open>
  Claim C9. \<open>getStatus\<close> translates the engine's status by the table of its
  \<open>switch\<close>: the node limits to NODELIMIT, the time and memory limits to
  their counterparts, stall, gap, solution-count, best-solution and restart
  limits and the user interrupt to USERLIMIT, the four terminal outcomes
  (optimal, infeasible, unbounded, infeasible-or-unbounded) to their
  counterparts, and unknown as well as every status the source does not name
  to UNKNOWN. The result is always one of the nine wrapper statuses.
\<close>

theorem getStatus_translation:
  "getStatus E s = getStatus_switch (SCIPgetStatus E s)
   \<and> getStatus_switch SCIP_STATUS_NODELIMIT = CSIP_STATUS_NODELIMIT
   \<and> getStatus_switch SCIP_STATUS_TOTALNODELIMIT = CSIP_STATUS_NODELIMIT
   \<and> getStatus_switch SCIP_STATUS_STALLNODELIMIT = CSIP_STATUS_USERLIMIT
   \<and> getStatus_switch SCIP_STATUS_TIMELIMIT = CSIP_STATUS_TIMELIMIT
   \<and> getStatus_switch SCIP_STATUS_MEMLIMIT = CSIP_STATUS_MEMLIMIT
   \<and> getStatus_switch SCIP_STATUS_GAPLIMIT = CSIP_STATUS_USERLIMIT
   \<and> getStatus_switch SCIP_STATUS_SOLLIMIT = CSIP_STATUS_USERLIMIT
   \<and> getStatus_switch SCIP_STATUS_BESTSOLLIMIT = CSIP_STATUS_USERLIMIT
   \<and> getStatus_switch SCIP_STATUS_RESTARTLIMIT = CSIP_STATUS_USERLIMIT
   \<and> getStatus_switch SCIP_STATUS_USERINTERRUPT = CSIP_STATUS_USERLIMIT
   \<and> getStatus_switch SCIP_STATUS_OPTIMAL = CSIP_STATUS_OPTIMAL
   \<and> getStatus_switch SCIP_STATUS_INFEASIBLE = CSIP_STATUS_INFEASIBLE
   \<and> getStatus_switch SCIP_STATUS_UNBOUNDED = CSIP_STATUS_UNBOUNDED
   \<and> getStatus_switch SCIP_STATUS_INFORUNBD = CSIP_STATUS_INFORUNBD
   \<and> getStatus_switch SCIP_STATUS_UNKNOWN = CSIP_STATUS_UNKNOWN
   \<and> getStatus_switch (SCIP_STATUS_OTHER k) = CSIP_STATUS_UNKNOWN
   \<and> getStatus E s \<in> {CSIP_STATUS_UNKNOWN, CSIP_STATUS_USERLIMIT, CSIP_STATUS_NODELIMIT,
        CSIP_STATUS_TIMELIMIT, CSIP_STATUS_MEMLIMIT, CSIP_STATUS_OPTIMAL, CSIP_STATUS_INFEASIBLE,
        CSIP_STATUS_UNBOUNDED, CSIP_STATUS_INFORUNBD}"
proof -
  have "getStatus E s \<in> {CSIP_STATUS_UNKNOWN, CSIP_STATUS_USERLIMIT, CSIP_STATUS_NODELIMIT,
        CSIP_STATUS_TIMELIMIT, CSIP_STATUS_MEMLIMIT, CSIP_STATUS_OPTIMAL, CSIP_STATUS_INFEASIBLE,
        CSIP_STATUS_UNBOUNDED, CSIP_STATUS_INFORUNBD}"
    by (cases "getStatus E s") simp_all
  then show ?thesis by (simp add: getStatus_def)
qed

subsection \<open>The objective value without a solution\<close>

text \<open>
  Claim C10. When the engine holds no best solution, \<open>CSIPgetObjValue\<close>
  returns the integer of the return code ERROR converted to a double; a
  minimisation model whose best solution has exactly that objective value
  makes it return the same double, so the caller cannot tell the two apart.
\<close>

theorem CSIPgetObjValue_no_solution:
  assumes "SCIPgetBestSol E s = None"
  shows "CSIPgetObjValue E code m s = double_of_int (code CSIP_RETCODE_ERROR)
     \<and> (\<forall>s' sl. SCIPgetBestSol E s' = Some sl
            \<and> SCIPgetSolOrigObj E s' sl = double_of_int (code CSIP_RETCODE_ERROR)
            \<and> sense m = SCIP_OBJSENSE_MINIMIZE
          \<longrightarrow> CSIPgetObjValue E code m s' = CSIPgetObjValue E code m s)"
  using assms by (simp add: CSIPgetObjValue_def)

theorem CSIPgetObjValue_no_solution_witness:
  "SCIPgetBestSol engine_api engine_init = None
   \<and> CSIPgetObjValue engine_api retcode_value model_full engine_init = Fin 1
   \<and> CSIPgetObjValue engine_api retcode_value model_full
        (engine_init\<lparr>e_best := Some 0, e_bestobj := Fin 1\<rparr>) = Fin 1"
proof -
  have h: "SCIPgetBestSol engine_api engine_init = None"
    by (simp add: engine_api_def engine_init_def)
  have m: "sense model_full = SCIP_OBJSENSE_MINIMIZE"
    by (simp add: model_full_def)
  have b: "SCIPgetBestSol engine_api (engine_init\<lparr>e_best := Some 0, e_bestobj := Fin 1\<rparr>) = Some 0"
    "SCIPgetSolOrigObj engine_api (engine_init\<lparr>e_best := Some 0, e_bestobj := Fin 1\<rparr>) 0
       = double_of_int (retcode_value CSIP_RETCODE_ERROR)"
    by (simp_all add: engine_api_def double_of_int_def)
  from CSIPgetObjValue_no_solution [OF h, of retcode_value model_full] h m b
  show ?thesis by (simp add: double_of_int_def)
qed

subsection \<open>Solving: objective sense and cached results\<close>

text \<open>How a call of \<open>CSIPsolve\<close> that returns OK went through its steps.\<close>

lemma CSIPsolve_search_cached:
  assumes "CSIPsolve_search E m2 s2 = Returns (rc, m', s')"
    and "SCIPsolve E m2 s2 = (SCIP_OKAY, m3, s3)"
  shows "m' = m3\<lparr>status := getStatus E s3,
                  objbound := (if sense m3 = SCIP_OBJSENSE_MINIMIZE then SCIPgetDualbound E s3
                               else dneg (SCIPgetDualbound E s3))\<rparr>"
  using assms
  by (auto simp: CSIPsolve_search_def Let_def obind_Returns_iff split: prod.splits if_splits)

lemma CSIPsolve_search_OK:
  assumes "CSIPsolve_search E m2 s2 = Returns (CSIP_RETCODE_OK, m', s')"
  shows "\<exists>m3 s3 s4. SCIPsolve E m2 s2 = (SCIP_OKAY, m3, s3)
          \<and> SCIPfreeTransform E s3 = (SCIP_OKAY, s4)
          \<and> reformSenseMinimize E m' s4 = Returns (CSIP_RETCODE_OK, s')"
  using assms
  by (auto simp: CSIPsolve_search_def Let_def obind_Returns_iff retCodeSCIPtoCSIP_OK
           split: prod.splits if_splits)

lemma CSIPsolve_OK:
  assumes "CSIPsolve E m s = Returns (CSIP_RETCODE_OK, m', s')"
  shows "\<exists>s1 m2 s2. reformSenseMinimize E m s = Returns (CSIP_RETCODE_OK, s1)
          \<and> CSIPsolve_initialsol E m s1 = (SCIP_OKAY, m2, s2)
          \<and> CSIPsolve_search E m2 s2 = Returns (CSIP_RETCODE_OK, m', s')"
proof -
  from assms obtain rc1 s1 where
      r: "reformSenseMinimize E m s = Returns (rc1, s1)"
    and k: "(if rc1 \<noteq> CSIP_RETCODE_OK then Returns (rc1, m, s1)
             else case CSIPsolve_initialsol E m s1 of (rc2, m2, s2) \<Rightarrow>
               if retCodeSCIPtoCSIP rc2 \<noteq> CSIP_RETCODE_OK
               then Returns (retCodeSCIPtoCSIP rc2, m2, s2)
               else CSIPsolve_search E m2 s2) = Returns (CSIP_RETCODE_OK, m', s')"
    by (auto simp: CSIPsolve_def obind_Returns_iff)
  from k have ok1: "rc1 = CSIP_RETCODE_OK"
    by (auto split: if_splits)
  obtain rc2 m2 s2 where i: "CSIPsolve_initialsol E m s1 = (rc2, m2, s2)"
    by (cases "CSIPsolve_initialsol E m s1") auto
  from k ok1 i have ok2: "rc2 = SCIP_OKAY"
    and srch: "CSIPsolve_search E m2 s2 = Returns (CSIP_RETCODE_OK, m', s')"
    by (auto simp: retCodeSCIPtoCSIP_OK split: if_splits)
  from r ok1 i ok2 srch show ?thesis by blast
qed

lemma reformSenseMinimize_loop_cong:
  assumes "vars m' = vars m"
  shows "reformSenseMinimize_loop E m' ixs s = reformSenseMinimize_loop E m ixs s"
proof (induction ixs arbitrary: s)
  case Nil
  show ?case by simp
next
  case (Cons i ixs)
  have ih: "reformSenseMinimize_loop E m' ixs = reformSenseMinimize_loop E m ixs"
    by (rule ext) (rule Cons.IH)
  show ?case
    unfolding reformSenseMinimize_loop.simps ih assms ..
qed

lemma reformSenseMinimize_cong:
  "sense m' = sense m \<Longrightarrow> nvars m' = nvars m \<Longrightarrow> vars m' = vars m \<Longrightarrow>
   reformSenseMinimize E m' s = reformSenseMinimize E m s"
  by (simp add: reformSenseMinimize_def reformSenseMinimize_loop_cong [of m' m])

lemma reformSenseMinimize_loop_negates:
  assumes "objective_lens E"
    and "reformSenseMinimize_loop E m ixs s = Returns (CSIP_RETCODE_OK, s')"
    and "distinct (map (\<lambda>i. array_read (vars m) (int i)) ixs)"
  shows "SCIPvarGetObj E s' v =
           (if Returns v \<in> set (map (\<lambda>i. array_read (vars m) (int i)) ixs)
            then dneg (SCIPvarGetObj E s v) else SCIPvarGetObj E s v)"
  using assms(2,3)
proof (induction ixs arbitrary: s)
  case Nil
  then show ?case by simp
next
  case (Cons i ixs)
  from Cons.prems(1) obtain var where
      rd: "array_read (vars m) (int i) = Returns var"
    and k: "(case SCIPchgVarObj E s var (dneg (SCIPvarGetObj E s var)) of (rc, s1) \<Rightarrow>
              if retCodeSCIPtoCSIP rc \<noteq> CSIP_RETCODE_OK
              then Returns (retCodeSCIPtoCSIP rc, s1)
              else reformSenseMinimize_loop E m ixs s1) = Returns (CSIP_RETCODE_OK, s')"
    by (auto simp: obind_Returns_iff Let_def)
  obtain rc s1 where c: "SCIPchgVarObj E s var (dneg (SCIPvarGetObj E s var)) = (rc, s1)"
    by (cases "SCIPchgVarObj E s var (dneg (SCIPvarGetObj E s var))") auto
  from k c have ok: "rc = SCIP_OKAY"
    and rest: "reformSenseMinimize_loop E m ixs s1 = Returns (CSIP_RETCODE_OK, s')"
    by (auto simp: retCodeSCIPtoCSIP_OK split: if_splits)
  from assms(1) c ok have here: "SCIPvarGetObj E s1 var = dneg (SCIPvarGetObj E s var)"
    and other: "\<And>w. w \<noteq> var \<Longrightarrow> SCIPvarGetObj E s1 w = SCIPvarGetObj E s w"
    by (auto simp: objective_lens_def)
  from Cons.prems(2) rd have fresh: "Returns var \<notin> set (map (\<lambda>i. array_read (vars m) (int i)) ixs)"
    and d: "distinct (map (\<lambda>i. array_read (vars m) (int i)) ixs)"
    by auto
  have ih: "SCIPvarGetObj E s' v =
           (if Returns v \<in> set (map (\<lambda>i. array_read (vars m) (int i)) ixs)
            then dneg (SCIPvarGetObj E s1 v) else SCIPvarGetObj E s1 v)"
    by (rule Cons.IH [OF rest d])
  have mem: "set (map (\<lambda>i. array_read (vars m) (int i)) (i # ixs))
               = insert (Returns var) (set (map (\<lambda>i. array_read (vars m) (int i)) ixs))"
    using rd by simp
  show ?case
  proof (cases "v = var")
    case True
    have "SCIPvarGetObj E s' var = SCIPvarGetObj E s1 var"
      using ih fresh unfolding True by simp
    then have "SCIPvarGetObj E s' var = dneg (SCIPvarGetObj E s var)"
      using here by simp
    then show ?thesis unfolding mem True by simp
  next
    case False
    then have "SCIPvarGetObj E s1 v = SCIPvarGetObj E s v"
      by (rule other)
    with ih False show ?thesis unfolding mem by simp
  qed
qed

lemma reformSenseMinimize_negates:
  assumes "objective_lens E"
    and "reformSenseMinimize E m s = Returns (CSIP_RETCODE_OK, s')"
    and "distinct (model_vars m)"
    and "Returns v \<in> set (model_vars m)"
  shows "SCIPvarGetObj E s' v =
           (if sense m = SCIP_OBJSENSE_MAXIMIZE then dneg (SCIPvarGetObj E s v)
            else SCIPvarGetObj E s v)"
proof (cases "sense m = SCIP_OBJSENSE_MAXIMIZE")
  case True
  with assms(2) have "reformSenseMinimize_loop E m [0 ..< nvars m] s = Returns (CSIP_RETCODE_OK, s')"
    by (simp add: reformSenseMinimize_def)
  from reformSenseMinimize_loop_negates [OF assms(1) this, of v] assms(3,4) True
  show ?thesis by (simp add: model_vars_def)
next
  case False
  with assms(2) show ?thesis by (simp add: reformSenseMinimize_def)
qed

lemma upt_0_2: "[0 ..< (2::nat)] = [0, 1]"
  by (simp add: upt_rec)

lemma model2_reads:
  "array_read (vars model2) 0 = Returns 0" "array_read (vars model2) 1 = Returns 1"
  "nvars model2 = 2" "sense model2 = SCIP_OBJSENSE_MAXIMIZE" "initialsol model2 = None"
  by (simp_all add: model2_def array_read_def INITIALSIZE_def)

lemma solve2: "\<exists>m' s'. CSIPsolve engine_api model2 engine2 = Returns (CSIP_RETCODE_OK, m', s')"
  by (simp add: CSIPsolve_def reformSenseMinimize_def CSIPsolve_initialsol_def
        CSIPsolve_search_def model2_reads upt_0_2 engine_api_def Let_def)

lemma CSIPsolve_initialsol_frame:
  assumes "CSIPsolve_initialsol E m s1 = (rc, m2, s2)"
  shows "sense m2 = sense m \<and> nvars m2 = nvars m \<and> vars m2 = vars m
         \<and> (solve_keeps_objective E \<longrightarrow> SCIPvarGetObj E s2 = SCIPvarGetObj E s1)"
proof (cases "initialsol m")
  case None
  with assms show ?thesis by (simp add: CSIPsolve_initialsol_def)
next
  case (Some sl)
  obtain r slot stored t where a: "SCIPaddSolFree E s1 sl = (r, slot, stored, t)"
    by (cases "SCIPaddSolFree E s1 sl") auto
  with assms Some have "m2 = m\<lparr>initialsol := slot\<rparr>" "s2 = t"
    by (simp_all add: CSIPsolve_initialsol_def)
  moreover from a have "solve_keeps_objective E \<Longrightarrow> SCIPvarGetObj E t = SCIPvarGetObj E s1"
    unfolding solve_keeps_objective_def by blast
  ultimately show ?thesis by simp
qed

text \<open>The stand-in engine meets the three contracts.\<close>

lemma engine_api_objective_lens: "objective_lens engine_api"
  by (simp add: objective_lens_def engine_api_def)

lemma engine_api_keeps_objective: "solve_keeps_objective engine_api"
  by (auto simp: solve_keeps_objective_def engine_api_def)

lemma model2_vars: "model_vars model2 = [Returns 0, Returns 1]"
  by (simp add: model_vars_def model2_reads upt_0_2)

text \<open>
  Claim C1. Let the engine change objective coefficients one variable at a
  time, let it leave them alone when it is handed a solution, searches and
  discards the transformed problem, and let the stored variables be pairwise
  distinct. Then for a call of \<open>CSIPsolve\<close> that returns OK: with sense
  MAXIMIZE, every stored variable's coefficient in the state the search is
  invoked on is the negation of its coefficient before the call, the
  coefficients after the call are the negations of those the engine holds
  after \<open>SCIPfreeTransform\<close>, and each coefficient after the call equals its
  value before the call; with sense MINIMIZE both reforms leave the engine
  as it is and the coefficients are unchanged as well.
\<close>

theorem CSIPsolve_sense_toggle:
  assumes lens: "objective_lens E" and keep: "solve_keeps_objective E"
    and dist: "distinct (model_vars m)"
    and ok: "CSIPsolve E m s = Returns (CSIP_RETCODE_OK, m', s')"
  shows "\<exists>s1 m2 s2 m3 s3 s4.
       reformSenseMinimize E m s = Returns (CSIP_RETCODE_OK, s1)
     \<and> CSIPsolve_initialsol E m s1 = (SCIP_OKAY, m2, s2)
     \<and> SCIPsolve E m2 s2 = (SCIP_OKAY, m3, s3)
     \<and> SCIPfreeTransform E s3 = (SCIP_OKAY, s4)
     \<and> reformSenseMinimize E m' s4 = Returns (CSIP_RETCODE_OK, s')
     \<and> (\<forall>v. Returns v \<in> set (model_vars m) \<longrightarrow>
            (if sense m = SCIP_OBJSENSE_MAXIMIZE
             then SCIPvarGetObj E s2 v = dneg (SCIPvarGetObj E s v)
                  \<and> SCIPvarGetObj E s' v = dneg (SCIPvarGetObj E s4 v)
             else SCIPvarGetObj E s2 v = SCIPvarGetObj E s v)
            \<and> SCIPvarGetObj E s' v = SCIPvarGetObj E s v)
     \<and> (sense m \<noteq> SCIP_OBJSENSE_MAXIMIZE \<longrightarrow> s1 = s \<and> s' = s4)"
proof -
  from CSIPsolve_OK [OF ok] obtain s1 m2 s2 where
      a: "reformSenseMinimize E m s = Returns (CSIP_RETCODE_OK, s1)"
    and b: "CSIPsolve_initialsol E m s1 = (SCIP_OKAY, m2, s2)"
    and c: "CSIPsolve_search E m2 s2 = Returns (CSIP_RETCODE_OK, m', s')"
    by blast
  from CSIPsolve_search_OK [OF c] obtain m3 s3 s4 where
      d: "SCIPsolve E m2 s2 = (SCIP_OKAY, m3, s3)"
    and e: "SCIPfreeTransform E s3 = (SCIP_OKAY, s4)"
    and f: "reformSenseMinimize E m' s4 = Returns (CSIP_RETCODE_OK, s')"
    by blast
  note g = CSIPsolve_search_cached [OF c d]
  from CSIPsolve_initialsol_frame [OF b] keep
  have m2: "sense m2 = sense m" "nvars m2 = nvars m" "vars m2 = vars m"
    and o2: "SCIPvarGetObj E s2 = SCIPvarGetObj E s1"
    by simp_all
  from keep d have m3: "sense m3 = sense m2" "nvars m3 = nvars m2" "vars m3 = vars m2"
    and o3: "SCIPvarGetObj E s3 = SCIPvarGetObj E s2"
    unfolding solve_keeps_objective_def by blast+
  from keep e have o4: "SCIPvarGetObj E s4 = SCIPvarGetObj E s3"
    unfolding solve_keeps_objective_def by blast
  have m': "sense m' = sense m" "nvars m' = nvars m" "vars m' = vars m"
    by (simp_all add: g m2 m3)
  then have f': "reformSenseMinimize E m s4 = Returns (CSIP_RETCODE_OK, s')"
    using f reformSenseMinimize_cong [of m' m E s4] by simp
  have vars: "(if sense m = SCIP_OBJSENSE_MAXIMIZE
             then SCIPvarGetObj E s2 v = dneg (SCIPvarGetObj E s v)
                  \<and> SCIPvarGetObj E s' v = dneg (SCIPvarGetObj E s4 v)
             else SCIPvarGetObj E s2 v = SCIPvarGetObj E s v)
            \<and> SCIPvarGetObj E s' v = SCIPvarGetObj E s v"
    if v: "Returns v \<in> set (model_vars m)" for v
  proof -
    note first = reformSenseMinimize_negates [OF lens a dist v]
    note second = reformSenseMinimize_negates [OF lens f' dist v]
    show ?thesis
    proof (cases "sense m = SCIP_OBJSENSE_MAXIMIZE")
      case True
      with first second show ?thesis by (simp add: o2 o3 o4 dneg_dneg)
    next
      case False
      with first second show ?thesis by (simp add: o2 o3 o4)
    qed
  qed
  have noop: "s1 = s \<and> s' = s4" if "sense m \<noteq> SCIP_OBJSENSE_MAXIMIZE"
    using that a f' by (simp add: reformSenseMinimize_def)
  from a b d e f vars noop show ?thesis by blast
qed

theorem CSIPsolve_sense_toggle_witness:
  "objective_lens engine_api \<and> solve_keeps_objective engine_api \<and> distinct (model_vars model2)
   \<and> sense model2 = SCIP_OBJSENSE_MAXIMIZE
   \<and> SCIPvarGetObj engine_api engine2 0 = Fin 3 \<and> SCIPvarGetObj engine_api engine2 1 = Fin (- 2)
   \<and> (\<exists>m' s'. CSIPsolve engine_api model2 engine2 = Returns (CSIP_RETCODE_OK, m', s')
         \<and> SCIPvarGetObj engine_api s' 0 = Fin 3 \<and> SCIPvarGetObj engine_api s' 1 = Fin (- 2))"
proof -
  have d: "distinct (model_vars model2)"
    by (simp add: model2_vars)
  have o: "SCIPvarGetObj engine_api engine2 0 = Fin 3" "SCIPvarGetObj engine_api engine2 1 = Fin (- 2)"
    by (simp_all add: engine_api_def engine2_def)
  from solve2 obtain m' s' where
    e: "CSIPsolve engine_api model2 engine2 = Returns (CSIP_RETCODE_OK, m', s')"
    by blast
  from CSIPsolve_sense_toggle [OF engine_api_objective_lens engine_api_keeps_objective d e]
  have "SCIPvarGetObj engine_api s' 0 = SCIPvarGetObj engine_api engine2 0"
    "SCIPvarGetObj engine_api s' 1 = SCIPvarGetObj engine_api engine2 1"
    by (auto simp: model2_vars)
  with o e engine_api_objective_lens engine_api_keeps_objective d model2_reads(4)
  show ?thesis by auto
qed

text \<open>Appending to the two-variable model succeeds on the stand-in engine.\<close>

lemma model2_appends:
  "\<exists>idx mv sv. CSIPaddVar engine_api True model2 (Fin 0) (Fin 1) CSIP_VARTYPE_BINARY True engine2
       = Returns (CSIP_RETCODE_OK, idx, mv, sv)"
  "\<exists>idx mc sc. addCons engine_api True model2 0 True engine2 = Returns (CSIP_RETCODE_OK, idx, mc, sc)"
  by (simp_all add: CSIPaddVar_def addCons_def engine_api_def model2_def array_write_def
        INITIALSIZE_def Let_def)

text \<open>
  Claim C2. In a call of \<open>CSIPsolve\<close> that returns OK, the cached status is
  the translation of the status of the state the search returned, and the
  cached bound is that state's dual bound under sense MINIMIZE and its
  negation under MAXIMIZE; \<open>SCIPfreeTransform\<close> is applied to that same
  state, after the two reads. The fields are written as soon as the search
  has returned \<open>SCIP_OKAY\<close>, whatever the later steps return.
  \<open>CSIPgetStatus\<close> and \<open>CSIPgetObjBound\<close> return the cached fields. A model
  that \<open>CSIPcreateModel\<close> has just created has the bound NaN, and adding a
  variable, registering a constraint and setting the sense keep the bound.
\<close>

theorem CSIPsolve_caches_before_discard:
  "(CSIPsolve E m s = Returns (CSIP_RETCODE_OK, m', s') \<longrightarrow>
      (\<exists>s1 m2 s2 m3 s3 s4.
         reformSenseMinimize E m s = Returns (CSIP_RETCODE_OK, s1)
       \<and> CSIPsolve_initialsol E m s1 = (SCIP_OKAY, m2, s2)
       \<and> SCIPsolve E m2 s2 = (SCIP_OKAY, m3, s3)
       \<and> sense m' = sense m3
       \<and> CSIPgetStatus m' = getStatus E s3
       \<and> CSIPgetObjBound m' =
             (if sense m' = SCIP_OBJSENSE_MINIMIZE then SCIPgetDualbound E s3
              else dneg (SCIPgetDualbound E s3))
       \<and> SCIPfreeTransform E s3 = (SCIP_OKAY, s4)
       \<and> reformSenseMinimize E m' s4 = Returns (CSIP_RETCODE_OK, s')))
   \<and> (CSIPsolve_search E n2 t2 = Returns (rc, n', t') \<and> SCIPsolve E n2 t2 = (SCIP_OKAY, n3, t3) \<longrightarrow>
         status n' = getStatus E t3
       \<and> objbound n' = (if sense n' = SCIP_OBJSENSE_MINIMIZE then SCIPgetDualbound E t3
                         else dneg (SCIPgetDualbound E t3)))
   \<and> (CSIPcreateModel E model_ok vars_ok conss_ok setParameter = (CSIP_RETCODE_OK, Some (m0, s0)) \<longrightarrow>
         CSIPgetObjBound m0 = NaN)
   \<and> (CSIPaddVar E grow_ok m lb ub vt want_idx s = Returns (rcv, idxv, mv, sv) \<longrightarrow>
         objbound mv = objbound m)
   \<and> (addCons E grow_ok m cons want_idx s = Returns (rcc, idxc, mc, sc) \<longrightarrow>
         objbound mc = objbound m)
   \<and> objbound (snd (CSIPsetSenseMinimize m)) = objbound m
   \<and> objbound (snd (CSIPsetSenseMaximize m)) = objbound m"
proof -
  have solve: "\<exists>s1 m2 s2 m3 s3 s4.
         reformSenseMinimize E m s = Returns (CSIP_RETCODE_OK, s1)
       \<and> CSIPsolve_initialsol E m s1 = (SCIP_OKAY, m2, s2)
       \<and> SCIPsolve E m2 s2 = (SCIP_OKAY, m3, s3)
       \<and> sense m' = sense m3
       \<and> CSIPgetStatus m' = getStatus E s3
       \<and> CSIPgetObjBound m' =
             (if sense m' = SCIP_OBJSENSE_MINIMIZE then SCIPgetDualbound E s3
              else dneg (SCIPgetDualbound E s3))
       \<and> SCIPfreeTransform E s3 = (SCIP_OKAY, s4)
       \<and> reformSenseMinimize E m' s4 = Returns (CSIP_RETCODE_OK, s')"
    if ok: "CSIPsolve E m s = Returns (CSIP_RETCODE_OK, m', s')"
  proof -
    from CSIPsolve_OK [OF ok] obtain s1 m2 s2 where
        a: "reformSenseMinimize E m s = Returns (CSIP_RETCODE_OK, s1)"
      and b: "CSIPsolve_initialsol E m s1 = (SCIP_OKAY, m2, s2)"
      and c: "CSIPsolve_search E m2 s2 = Returns (CSIP_RETCODE_OK, m', s')"
      by blast
    from CSIPsolve_search_OK [OF c] obtain m3 s3 s4 where
        d: "SCIPsolve E m2 s2 = (SCIP_OKAY, m3, s3)"
      and e: "SCIPfreeTransform E s3 = (SCIP_OKAY, s4)"
      and f: "reformSenseMinimize E m' s4 = Returns (CSIP_RETCODE_OK, s')"
      by blast
    note g = CSIPsolve_search_cached [OF c d]
    have "sense m' = sense m3" "CSIPgetStatus m' = getStatus E s3"
      "CSIPgetObjBound m' =
             (if sense m' = SCIP_OBJSENSE_MINIMIZE then SCIPgetDualbound E s3
              else dneg (SCIPgetDualbound E s3))"
      by (simp_all add: g CSIPgetStatus_def CSIPgetObjBound_def)
    with a b d e f show ?thesis by blast
  qed
  have search: "status n' = getStatus E t3
       \<and> objbound n' = (if sense n' = SCIP_OBJSENSE_MINIMIZE then SCIPgetDualbound E t3
                         else dneg (SCIPgetDualbound E t3))"
    if "CSIPsolve_search E n2 t2 = Returns (rc, n', t')" "SCIPsolve E n2 t2 = (SCIP_OKAY, n3, t3)"
    by (simp add: CSIPsolve_search_cached [OF that])
  have create: "CSIPgetObjBound m0 = NaN"
    if "CSIPcreateModel E model_ok vars_ok conss_ok setParameter = (CSIP_RETCODE_OK, Some (m0, s0))"
    using that
    by (auto simp: CSIPcreateModel_def CSIPgetObjBound_def Let_def split: if_splits prod.splits)
  have addv: "objbound mv = objbound m"
    if "CSIPaddVar E grow_ok m lb ub vt want_idx s = Returns (rcv, idxv, mv, sv)"
    using that
    by (auto simp: CSIPaddVar_def Let_def obind_Returns_iff split: if_splits prod.splits)
  have addc: "objbound mc = objbound m"
    if "addCons E grow_ok m cons want_idx s = Returns (rcc, idxc, mc, sc)"
    using that
    by (auto simp: addCons_def Let_def obind_Returns_iff split: if_splits prod.splits)
  have sense: "objbound (snd (CSIPsetSenseMinimize m)) = objbound m"
    "objbound (snd (CSIPsetSenseMaximize m)) = objbound m"
    by (simp_all add: CSIPsetSenseMinimize_def CSIPsetSenseMaximize_def)
  from solve search create addv addc sense show ?thesis by blast
qed

theorem CSIPsolve_caches_before_discard_witness:
  "(\<exists>m' s'. CSIPsolve engine_api model2 engine2 = Returns (CSIP_RETCODE_OK, m', s')
       \<and> CSIPgetStatus m' = CSIP_STATUS_OPTIMAL \<and> CSIPgetObjBound m' = Fin (- 5))
   \<and> (\<exists>m0 s0. CSIPcreateModel engine_api True True True (\<lambda>name val s. (CSIP_RETCODE_OK, s))
                 = (CSIP_RETCODE_OK, Some (m0, s0))
         \<and> CSIPgetObjBound m0 = NaN)
   \<and> (\<exists>idx mv sv. CSIPaddVar engine_api True model2 (Fin 0) (Fin 1) CSIP_VARTYPE_BINARY True engine2
                 = Returns (CSIP_RETCODE_OK, idx, mv, sv)
         \<and> objbound mv = objbound model2)
   \<and> (\<exists>idx mc sc. addCons engine_api True model2 0 True engine2
                 = Returns (CSIP_RETCODE_OK, idx, mc, sc)
         \<and> objbound mc = objbound model2)"
proof -
  from solve2 obtain m' s' where
    e: "CSIPsolve engine_api model2 engine2 = Returns (CSIP_RETCODE_OK, m', s')"
    by blast
  from CSIPsolve_caches_before_discard [THEN conjunct1, THEN mp, OF e]
  obtain s1 m2 s2 m3 s3 where
      i: "CSIPsolve_initialsol engine_api model2 s1 = (SCIP_OKAY, m2, s2)"
    and sv: "SCIPsolve engine_api m2 s2 = (SCIP_OKAY, m3, s3)"
    and sn: "sense m' = sense m3"
    and st: "CSIPgetStatus m' = getStatus engine_api s3"
    and bd: "CSIPgetObjBound m' =
             (if sense m' = SCIP_OBJSENSE_MINIMIZE then SCIPgetDualbound engine_api s3
              else dneg (SCIPgetDualbound engine_api s3))"
    by blast
  from i have "m2 = model2"
    by (simp add: CSIPsolve_initialsol_def model2_reads)
  with sv have "sense m3 = SCIP_OBJSENSE_MAXIMIZE" "SCIPgetStatus engine_api s3 = SCIP_STATUS_OPTIMAL"
    "SCIPgetDualbound engine_api s3 = Fin 5"
    by (auto simp: engine_api_def model2_reads)
  with sn st bd have r: "CSIPgetStatus m' = CSIP_STATUS_OPTIMAL" "CSIPgetObjBound m' = Fin (- 5)"
    by (simp_all add: getStatus_def)
  have "\<exists>m0 s0. CSIPcreateModel engine_api True True True (\<lambda>name val s. (CSIP_RETCODE_OK, s))
                 = (CSIP_RETCODE_OK, Some (m0, s0))"
    by (simp add: CSIPcreateModel_def engine_api_def malloc_def Let_def)
  then obtain m0 s0 where
    c: "CSIPcreateModel engine_api True True True (\<lambda>name val s. (CSIP_RETCODE_OK, s))
                 = (CSIP_RETCODE_OK, Some (m0, s0))"
    by blast
  from CSIPsolve_caches_before_discard [THEN conjunct2, THEN conjunct2, THEN conjunct1, THEN mp, OF c]
  have n: "CSIPgetObjBound m0 = NaN" .
  from model2_appends obtain idx mv sv idx' mc sc where
      v: "CSIPaddVar engine_api True model2 (Fin 0) (Fin 1) CSIP_VARTYPE_BINARY True engine2
            = Returns (CSIP_RETCODE_OK, idx, mv, sv)"
    and k: "addCons engine_api True model2 0 True engine2 = Returns (CSIP_RETCODE_OK, idx', mc, sc)"
    by blast
  note rest = CSIPsolve_caches_before_discard [THEN conjunct2, THEN conjunct2, THEN conjunct2]
  from rest [THEN conjunct1, THEN mp, OF v]
  have bv: "objbound mv = objbound model2" .
  from rest [THEN conjunct2, THEN conjunct1, THEN mp, OF k]
  have bc: "objbound mc = objbound model2" .
  from e r c n v bv k bc show ?thesis by blast
qed

subsection \<open>Growing the entity store\<close>

text \<open>
  Claim C3. When the store is full, the engine calls succeed and \<open>realloc\<close>
  fails, \<open>CSIPaddVar\<close> and \<open>addCons\<close> return NOMEMORY and leave the element
  count as it was; but the capacity field has already been doubled and
  the array pointer has been overwritten with the NULL that \<open>realloc\<close>
  returned, so the store is not in its prior state.
\<close>

theorem store_growth_failure:
  "(varssize m \<le> nvars m
      \<and> SCIPcreateVarBasic E s lowerbound upperbound (Fin 0) vartype = (SCIP_OKAY, var, s1)
      \<and> SCIPaddVar E s1 var = (SCIP_OKAY, s2)
    \<longrightarrow> CSIPaddVar E False m lowerbound upperbound vartype want_idx s
          = Returns (CSIP_RETCODE_NOMEMORY, None,
                     m\<lparr>varssize := GROWFACTOR * varssize m, vars := None\<rparr>, s2))
   \<and> (consssize m \<le> nconss m \<and> SCIPaddCons E t cons = (SCIP_OKAY, t1)
    \<longrightarrow> addCons E False m cons want_idx t
          = Returns (CSIP_RETCODE_NOMEMORY, None,
                     m\<lparr>consssize := GROWFACTOR * consssize m, conss := None\<rparr>, t1))"
  by (simp add: CSIPaddVar_def addCons_def realloc_def Let_def)

theorem store_growth_failure_witness:
  "(\<exists>m' s'. CSIPaddVar engine_api False model_full (Fin 0) (Fin 1) CSIP_VARTYPE_BINARY True engine_init
        = Returns (CSIP_RETCODE_NOMEMORY, None, m', s')
      \<and> nvars m' = 64 \<and> varssize model_full = 64 \<and> varssize m' = 128
      \<and> vars model_full \<noteq> None \<and> vars m' = None)
   \<and> (\<exists>m' s'. addCons engine_api False model_full 0 True engine_init
        = Returns (CSIP_RETCODE_NOMEMORY, None, m', s')
      \<and> nconss m' = 64 \<and> consssize model_full = 64 \<and> consssize m' = 128
      \<and> conss model_full \<noteq> None \<and> conss m' = None)"
proof -
  have full: "varssize model_full \<le> nvars model_full" "consssize model_full \<le> nconss model_full"
    by (simp_all add: model_full_def)
  have calls:
    "SCIPcreateVarBasic engine_api engine_init (Fin 0) (Fin 1) (Fin 0) CSIP_VARTYPE_BINARY
       = (SCIP_OKAY, fst (snd (SCIPcreateVarBasic engine_api engine_init (Fin 0) (Fin 1) (Fin 0) CSIP_VARTYPE_BINARY)),
          snd (snd (SCIPcreateVarBasic engine_api engine_init (Fin 0) (Fin 1) (Fin 0) CSIP_VARTYPE_BINARY)))"
    "SCIPaddVar engine_api (snd (snd (SCIPcreateVarBasic engine_api engine_init (Fin 0) (Fin 1) (Fin 0) CSIP_VARTYPE_BINARY)))
        (fst (snd (SCIPcreateVarBasic engine_api engine_init (Fin 0) (Fin 1) (Fin 0) CSIP_VARTYPE_BINARY)))
       = (SCIP_OKAY, snd (snd (SCIPcreateVarBasic engine_api engine_init (Fin 0) (Fin 1) (Fin 0) CSIP_VARTYPE_BINARY)))"
    "SCIPaddCons engine_api engine_init 0 = (SCIP_OKAY, snd (SCIPaddCons engine_api engine_init 0))"
    by (simp_all add: engine_api_def)
  note v = store_growth_failure [THEN conjunct1, THEN mp, OF conjI [OF full(1) conjI [OF calls(1) calls(2)]],
             of True]
  note c = store_growth_failure [THEN conjunct2, THEN mp, OF conjI [OF full(2) calls(3)], of True]
  have vals: "nvars model_full = 64" "varssize model_full = 64" "GROWFACTOR * varssize model_full = 128"
    "vars model_full \<noteq> None" "nconss model_full = 64" "consssize model_full = 64"
    "GROWFACTOR * consssize model_full = 128" "conss model_full \<noteq> None"
    by (simp_all add: model_full_def INITIALSIZE_def GROWFACTOR_def)
  from v c vals show ?thesis by simp
qed

subsection \<open>Adding a lazy constraint from a callback\<close>

text \<open>
  Claim C6. When the engine is in its solved stage, \<open>CSIPcbAddLinCons\<close> in
  a check-mode session returns OK with the verdict set to feasible, the
  model and the engine state exactly as they were, and the same result
  whatever the engine's other operations are: none of them is used. (The
  source asserts that the session is in check mode at that point; with
  the assertion compiled in, a call in enforcement mode stops there.)
\<close>

theorem CSIPcbAddLinCons_solved_stage:
  assumes "SCIPgetStage E s = SCIP_STAGE_SOLVED"
  shows "CSIPcbAddLinCons E m cbdata terms lhs rhs islocal s
           = (if checkonly cbdata
              then Returns (CSIP_RETCODE_OK, m, cbdata\<lparr>feasible := True\<rparr>, s)
              else AssertFailed)
     \<and> (\<forall>E'. SCIPgetStage E' s = SCIPgetStage E s \<longrightarrow>
            CSIPcbAddLinCons E' m cbdata terms lhs rhs islocal s
              = CSIPcbAddLinCons E m cbdata terms lhs rhs islocal s)"
  using assms by (simp add: CSIPcbAddLinCons_def Let_def)

theorem CSIPcbAddLinCons_solved_stage_witness:
  "SCIPgetStage engine_api (engine2\<lparr>e_stage := SCIP_STAGE_SOLVED, e_verdict := SCIP_INFEASIBLE\<rparr>)
     = SCIP_STAGE_SOLVED
   \<and> CSIPcbAddLinCons engine_api model2 (session0\<lparr>checkonly := True, feasible := False\<rparr>)
        [(0, Fin 1)] NInf (Fin 0) 0 (engine2\<lparr>e_stage := SCIP_STAGE_SOLVED, e_verdict := SCIP_INFEASIBLE\<rparr>)
     = Returns (CSIP_RETCODE_OK, model2, session0\<lparr>checkonly := True, feasible := True\<rparr>,
                engine2\<lparr>e_stage := SCIP_STAGE_SOLVED, e_verdict := SCIP_INFEASIBLE\<rparr>)"
proof -
  have h: "SCIPgetStage engine_api (engine2\<lparr>e_stage := SCIP_STAGE_SOLVED, e_verdict := SCIP_INFEASIBLE\<rparr>)
     = SCIP_STAGE_SOLVED"
    by (simp add: engine_api_def)
  from CSIPcbAddLinCons_solved_stage [OF h, of model2 "session0\<lparr>checkonly := True, feasible := False\<rparr>"
      "[(0, Fin 1)]" NInf "Fin 0" 0] h
  show ?thesis by (simp add: session0_def)
qed

text \<open>Building a constraint does not use \<open>SCIPaddCons\<close>.\<close>

lemma createLinCons_loop_addCons:
  "createLinCons_loop (E\<lparr>SCIPaddCons := f\<rparr>) m cons terms s = createLinCons_loop E m cons terms s"
proof (induction terms arbitrary: s)
  case Nil
  show ?case by simp
next
  case (Cons a rest)
  obtain i coef where a: "a = (i, coef)" by (cases a)
  have ih: "createLinCons_loop (E\<lparr>SCIPaddCons := f\<rparr>) m cons rest = createLinCons_loop E m cons rest"
    by (rule ext) (rule Cons.IH)
  show ?case
    unfolding a createLinCons_loop.simps ih by simp
qed

lemma createLinCons_addCons:
  "createLinCons (E\<lparr>SCIPaddCons := f\<rparr>) m terms lhs rhs s = createLinCons E m terms lhs rhs s"
proof -
  have loop: "createLinCons_loop (E\<lparr>SCIPaddCons := f\<rparr>) m = createLinCons_loop E m"
    by (intro ext) (rule createLinCons_loop_addCons)
  have mk: "SCIPcreateConsBasicLinear (E\<lparr>SCIPaddCons := f\<rparr>) = SCIPcreateConsBasicLinear E"
    by simp
  show ?thesis
    unfolding createLinCons_def loop mk ..
qed

lemma engine2_rejecting_facts:
  "SCIPgetStage engine_api engine2_rejecting \<noteq> SCIP_STAGE_SOLVED"
  "createLinCons engine_api model2 [(0, Fin 1)] NInf (Fin 0) engine2_rejecting
     = Returns (CSIP_RETCODE_OK, 0, engine2_rejecting\<lparr>e_nconss := 1\<rparr>)"
  "SCIPcheckCons engine_api (engine2_rejecting\<lparr>e_nconss := 1\<rparr>) 0 sl
     = (SCIP_OKAY, SCIP_INFEASIBLE, engine2_rejecting\<lparr>e_nconss := 1\<rparr>)"
  "e_added engine2_rejecting = []"
  by (simp_all add: createLinCons_def engine_api_def model2_reads engine2_rejecting_def
        engine2_def engine_init_def)

text \<open>
  Claim C5. When the engine is not in its solved stage: whatever
  \<open>CSIPcbAddLinCons\<close> returns, the model struct (its constraint count and
  array included) is the one it was given, and the session keeps its mode
  and its solution reference. When the constraint is built and the engine
  checks it, against the session's solution in check mode and against no
  specific solution in enforcement mode, the verdict becomes infeasible if
  the check says infeasible and is kept otherwise; in check mode the engine
  state after the call is the one the release of the constraint leaves from
  the state after the check, and in enforcement mode \<open>SCIPaddCons\<close> is
  applied in between. In check mode the call is the same whatever
  \<open>SCIPaddCons\<close> is: it is not used.
\<close>

theorem CSIPcbAddLinCons_transient:
  assumes stage: "SCIPgetStage E s \<noteq> SCIP_STAGE_SOLVED"
  shows "(\<forall>rc m' d' s'.
            CSIPcbAddLinCons E m cbdata terms lhs rhs islocal s = Returns (rc, m', d', s') \<longrightarrow>
              m' = m \<and> nconss m' = nconss m \<and> conss m' = conss m
              \<and> checkonly d' = checkonly cbdata \<and> sol d' = sol cbdata)
     \<and> (\<forall>cons s1 result s2.
            createLinCons E m terms lhs rhs s = Returns (CSIP_RETCODE_OK, cons, s1)
            \<and> SCIPcheckCons E s1 cons (if checkonly cbdata then sol cbdata else None)
                = (SCIP_OKAY, result, s2) \<longrightarrow>
            (\<exists>rc d' s'.
               CSIPcbAddLinCons E m cbdata terms lhs rhs islocal s = Returns (rc, m, d', s')
               \<and> feasible d' = (if result = SCIP_INFEASIBLE then False else feasible cbdata)
               \<and> (if checkonly cbdata
                   then s' = snd (SCIPreleaseCons E s2 cons)
                   else (case SCIPaddCons E s2 cons of (rc3, s3) \<Rightarrow>
                           if rc3 = SCIP_OKAY then s' = snd (SCIPreleaseCons E s3 cons)
                           else s' = s3 \<and> rc = retCodeSCIPtoCSIP rc3))))
     \<and> (\<forall>f. checkonly cbdata \<longrightarrow>
            CSIPcbAddLinCons (E\<lparr>SCIPaddCons := f\<rparr>) m cbdata terms lhs rhs islocal s
              = CSIPcbAddLinCons E m cbdata terms lhs rhs islocal s)"
proof -
  have frame: "m' = m \<and> nconss m' = nconss m \<and> conss m' = conss m
              \<and> checkonly d' = checkonly cbdata \<and> sol d' = sol cbdata"
    if "CSIPcbAddLinCons E m cbdata terms lhs rhs islocal s = Returns (rc, m', d', s')"
    for rc m' d' s'
  proof -
    from that stage obtain rc1 cons s1 where
      c: "createLinCons E m terms lhs rhs s = Returns (rc1, cons, s1)"
      by (auto simp: CSIPcbAddLinCons_def Let_def obind_Returns_iff)
    obtain rc2 result s2 where
      k: "SCIPcheckCons E s1 cons (if checkonly cbdata then sol cbdata else None) = (rc2, result, s2)"
      by (cases "SCIPcheckCons E s1 cons (if checkonly cbdata then sol cbdata else None)") auto
    obtain rc3 s3 where a: "SCIPaddCons E s2 cons = (rc3, s3)"
      by (cases "SCIPaddCons E s2 cons") auto
    obtain rc4 s4 where r: "SCIPreleaseCons E s3 cons = (rc4, s4)"
      by (cases "SCIPreleaseCons E s3 cons") auto
    obtain rc5 s5 where r': "SCIPreleaseCons E s2 cons = (rc5, s5)"
      by (cases "SCIPreleaseCons E s2 cons") auto
    from that stage c k a r r' show ?thesis
      by (auto simp: CSIPcbAddLinCons_def Let_def split: if_splits)
  qed
  have chain: "\<exists>rc d' s'.
               CSIPcbAddLinCons E m cbdata terms lhs rhs islocal s = Returns (rc, m, d', s')
               \<and> feasible d' = (if result = SCIP_INFEASIBLE then False else feasible cbdata)
               \<and> (if checkonly cbdata
                   then s' = snd (SCIPreleaseCons E s2 cons)
                   else (case SCIPaddCons E s2 cons of (rc3, s3) \<Rightarrow>
                           if rc3 = SCIP_OKAY then s' = snd (SCIPreleaseCons E s3 cons)
                           else s' = s3 \<and> rc = retCodeSCIPtoCSIP rc3))"
    if c: "createLinCons E m terms lhs rhs s = Returns (CSIP_RETCODE_OK, cons, s1)"
      and k: "SCIPcheckCons E s1 cons (if checkonly cbdata then sol cbdata else None)
                = (SCIP_OKAY, result, s2)"
    for cons s1 result s2
  proof (cases "checkonly cbdata")
    case True
    obtain rc4 s4 where r: "SCIPreleaseCons E s2 cons = (rc4, s4)"
      by (cases "SCIPreleaseCons E s2 cons") auto
    with True c k stage show ?thesis
      by (simp add: CSIPcbAddLinCons_def Let_def)
  next
    case False
    obtain rc3 s3 where a: "SCIPaddCons E s2 cons = (rc3, s3)"
      by (cases "SCIPaddCons E s2 cons") auto
    obtain rc4 s4 where r: "SCIPreleaseCons E s3 cons = (rc4, s4)"
      by (cases "SCIPreleaseCons E s3 cons") auto
    from False c k stage a r show ?thesis
      by (simp add: CSIPcbAddLinCons_def Let_def retCodeSCIPtoCSIP_OK)
  qed
  have indep: "CSIPcbAddLinCons (E\<lparr>SCIPaddCons := f\<rparr>) m cbdata terms lhs rhs islocal s
              = CSIPcbAddLinCons E m cbdata terms lhs rhs islocal s"
    if "checkonly cbdata" for f
    using that
    by (simp add: CSIPcbAddLinCons_def createLinCons_addCons Let_def if_distrib [of checkonly]
             cong del: if_weak_cong prod.case_cong_weak)
  from frame chain indep show ?thesis by blast
qed

theorem CSIPcbAddLinCons_transient_witness:
  "SCIPgetStage engine_api engine2_rejecting \<noteq> SCIP_STAGE_SOLVED
   \<and> (\<exists>rc d' s'. CSIPcbAddLinCons engine_api model2 session0 [(0, Fin 1)] NInf (Fin 0) 0
                      engine2_rejecting = Returns (rc, model2, d', s')
          \<and> feasible session0 \<and> \<not> feasible d' \<and> e_added s' = [0])
   \<and> (\<exists>rc d' s'. CSIPcbAddLinCons engine_api model2 session_check [(0, Fin 1)] NInf (Fin 0) 0
                      engine2_rejecting = Returns (rc, model2, d', s')
          \<and> feasible session_check \<and> \<not> feasible d' \<and> e_added s' = [])"
proof -
  note st = engine2_rejecting_facts(1)
  note c = engine2_rejecting_facts(2)
  note t = CSIPcbAddLinCons_transient [OF st, THEN conjunct2, THEN conjunct1, rule_format]
  from t [of model2 "[(0, Fin 1)]" NInf "Fin 0" 0 "engine2_rejecting\<lparr>e_nconss := 1\<rparr>" session0
           SCIP_INFEASIBLE "engine2_rejecting\<lparr>e_nconss := 1\<rparr>" 0,
          OF conjI [OF c engine2_rejecting_facts(3)]]
  obtain rc d' s' where
      r: "CSIPcbAddLinCons engine_api model2 session0 [(0, Fin 1)] NInf (Fin 0) 0 engine2_rejecting
            = Returns (rc, model2, d', s')"
    and f: "\<not> feasible d'"
    and a: "e_added s' = [0]"
    by (auto simp: session0_def engine_api_def engine2_rejecting_facts(4))
  from t [of model2 "[(0, Fin 1)]" NInf "Fin 0" 0 "engine2_rejecting\<lparr>e_nconss := 1\<rparr>" session_check
           SCIP_INFEASIBLE "engine2_rejecting\<lparr>e_nconss := 1\<rparr>" 0,
          OF conjI [OF c engine2_rejecting_facts(3)]]
  obtain rc2 d2 s2 where
      r2: "CSIPcbAddLinCons engine_api model2 session_check [(0, Fin 1)] NInf (Fin 0) 0 engine2_rejecting
            = Returns (rc2, model2, d2, s2)"
    and f2: "\<not> feasible d2"
    and a2: "e_added s2 = []"
    by (auto simp: session_check_def session0_def engine_api_def engine2_rejecting_facts(4))
  have "feasible session0" "feasible session_check"
    by (simp_all add: session0_def session_check_def)
  with st r f a r2 f2 a2 show ?thesis by blast
qed

subsection \<open>The lazy-constraint handlers\<close>

text \<open>In an enforcement-mode session the solution reference is not read.\<close>

lemma CSIPcbAddLinCons_enforcement_sol:
  "\<not> checkonly cbdata \<Longrightarrow>
   CSIPcbAddLinCons E m (cbdata\<lparr>sol := x\<rparr>) terms lhs rhs islocal t
     = obind (CSIPcbAddLinCons E m cbdata terms lhs rhs islocal t)
         (\<lambda>(rc, m', d', s'). Returns (rc, m', d'\<lparr>sol := x\<rparr>, s'))"
  apply (cases "createLinCons E m terms lhs rhs t")
    apply (auto simp: CSIPcbAddLinCons_def Let_def split: prod.splits)
  done

text \<open>What the callbacks \<open>cb_cut\<close> do on the stand-in engine.\<close>

lemma cb_cut_enforcement:
  "cb_cut model2 (session0\<lparr>checkonly := False, feasible := True\<rparr>) u engine2_rejecting
     = Returns (CSIP_RETCODE_OK, model2, session0\<lparr>checkonly := False, feasible := False\<rparr>,
                engine2_rejecting\<lparr>e_nconss := 1, e_added := [0]\<rparr>)"
  by (simp add: cb_cut_def CSIPcbAddLinCons_def engine2_rejecting_facts Let_def session0_def)
     (simp add: engine_api_def engine2_rejecting_def engine2_def engine_init_def)

lemma cb_cut_check:
  "cb_cut model2 (session0\<lparr>checkonly := True, feasible := True, sol := Some 7\<rparr>) u engine2_rejecting
     = Returns (CSIP_RETCODE_OK, model2,
                session0\<lparr>checkonly := True, feasible := False, sol := Some 7\<rparr>,
                engine2_rejecting\<lparr>e_nconss := 1\<rparr>)"
  by (simp add: cb_cut_def CSIPcbAddLinCons_def engine2_rejecting_facts Let_def session0_def)
     (simp add: engine_api_def engine2_rejecting_def)

text \<open>
  Claim C4, as the code has it. Both handlers run the callback on the
  session with the verdict reset to feasible; the check handler also sets
  the mode to check-only and the solution reference to the candidate, the
  enforcement handler sets the mode and leaves the reference field as it is.
  When the callback returns OK, the enforcement result is FEASIBLE if the
  verdict is still feasible and CONSADDED otherwise, and the check result is
  INFEASIBLE exactly when the verdict is infeasible. When the callback
  returns another code, the handler returns the translated code and the
  result slot holds FEASIBLE. In an enforcement-mode session the accessor
  \<open>CSIPcbGetVarValues\<close> and \<open>CSIPcbAddLinCons\<close> behave the same whatever the
  reference field holds. The pseudo-solution handler is the enforcement
  handler.
\<close>

theorem lazy_handlers_verdict:
  "(\<forall>rc m' d' s'.
      callback m (conshdlrdata\<lparr>checkonly := False, feasible := True\<rparr>) (userdata conshdlrdata) s
        = Returns (rc, m', d', s') \<longrightarrow>
      consEnfolpLazy callback m conshdlrdata s
        = Returns (if rc = CSIP_RETCODE_OK
                   then (SCIP_OKAY, (if feasible d' then SCIP_FEASIBLE else SCIP_CONSADDED), m', d', s')
                   else (retCodeCSIPtoSCIP rc, SCIP_FEASIBLE, m', d', s'))
      \<and> consEnfopsLazy callback m conshdlrdata s = consEnfolpLazy callback m conshdlrdata s)
   \<and> (\<forall>rc m' d' s'.
      callback m (conshdlrdata\<lparr>checkonly := True, feasible := True, sol := candidate\<rparr>)
          (userdata conshdlrdata) s
        = Returns (rc, m', d', s') \<longrightarrow>
      consCheckLazy callback m conshdlrdata candidate s
        = Returns (if rc = CSIP_RETCODE_OK
                   then (SCIP_OKAY, (if feasible d' then SCIP_FEASIBLE else SCIP_INFEASIBLE), m', d', s')
                   else (retCodeCSIPtoSCIP rc, SCIP_FEASIBLE, m', d', s')))
   \<and> (\<forall>x. \<not> checkonly cbdata \<longrightarrow>
          CSIPcbGetVarValues E m (cbdata\<lparr>sol := x\<rparr>) t = CSIPcbGetVarValues E m cbdata t
          \<and> CSIPcbAddLinCons E m (cbdata\<lparr>sol := x\<rparr>) terms lhs rhs islocal t
              = obind (CSIPcbAddLinCons E m cbdata terms lhs rhs islocal t)
                  (\<lambda>(rc, m', d', s'). Returns (rc, m', d'\<lparr>sol := x\<rparr>, s')))"
  by (simp add: consEnfolpLazy_def consEnfopsLazy_def consCheckLazy_def Let_def
        retCodeCSIPtoSCIP_OKAY CSIPcbGetVarValues_def CSIPcbAddLinCons_enforcement_sol)

theorem lazy_handlers_verdict_witness:
  "consEnfolpLazy cb_cut model2 session0 engine2_rejecting
     = Returns (SCIP_OKAY, SCIP_CONSADDED, model2, session0\<lparr>checkonly := False, feasible := False\<rparr>,
                engine2_rejecting\<lparr>e_nconss := 1, e_added := [0]\<rparr>)
   \<and> consCheckLazy cb_cut model2 session0 (Some 7) engine2_rejecting
     = Returns (SCIP_OKAY, SCIP_INFEASIBLE, model2,
                session0\<lparr>checkonly := True, feasible := False, sol := Some 7\<rparr>,
                engine2_rejecting\<lparr>e_nconss := 1\<rparr>)
   \<and> \<not> checkonly session0
   \<and> CSIPcbGetVarValues engine_api model2 (session0\<lparr>sol := Some 7\<rparr>) engine2
       = CSIPcbGetVarValues engine_api model2 session0 engine2"
proof -
  note t = lazy_handlers_verdict [of cb_cut model2 session0 engine2_rejecting "Some 7" session0
      engine_api engine2 "[]" NInf NInf 0]
  have e: "consEnfolpLazy cb_cut model2 session0 engine2_rejecting
     = Returns (SCIP_OKAY, SCIP_CONSADDED, model2, session0\<lparr>checkonly := False, feasible := False\<rparr>,
                engine2_rejecting\<lparr>e_nconss := 1, e_added := [0]\<rparr>)"
    using t [THEN conjunct1, rule_format, OF cb_cut_enforcement, THEN conjunct1]
    by (simp add: session0_def)
  have c: "consCheckLazy cb_cut model2 session0 (Some 7) engine2_rejecting
     = Returns (SCIP_OKAY, SCIP_INFEASIBLE, model2,
                session0\<lparr>checkonly := True, feasible := False, sol := Some 7\<rparr>,
                engine2_rejecting\<lparr>e_nconss := 1\<rparr>)"
    using t [THEN conjunct2, THEN conjunct1, rule_format, OF cb_cut_check]
    by (simp add: session0_def)
  have n: "\<not> checkonly session0" by (simp add: session0_def)
  from t [THEN conjunct2, THEN conjunct2, rule_format, OF n, THEN conjunct1] e c n
  show ?thesis by simp
qed

text \<open>
  The claim as it was stated fails on two inputs: a callback that has a cut
  rejected (the verdict becomes infeasible) and then returns an error leaves
  the result FEASIBLE in both handlers; and an enforcement call that follows
  a check call runs the callback on a session that still holds the checked
  candidate's reference.
\<close>

theorem lazy_handlers_counterexample:
  "consEnfolpLazy cb_cut_then_fail model2 session0 engine2_rejecting
     = Returns (SCIP_ERROR, SCIP_FEASIBLE, model2, session0\<lparr>checkonly := False, feasible := False\<rparr>,
                engine2_rejecting\<lparr>e_nconss := 1, e_added := [0]\<rparr>)
   \<and> consCheckLazy cb_cut_then_fail model2 session0 (Some 7) engine2_rejecting
     = Returns (SCIP_ERROR, SCIP_FEASIBLE, model2,
                session0\<lparr>checkonly := True, feasible := False, sol := Some 7\<rparr>,
                engine2_rejecting\<lparr>e_nconss := 1\<rparr>)
   \<and> consCheckLazy cb_idle model2 session0 (Some 7) engine2
     = Returns (SCIP_OKAY, SCIP_FEASIBLE, model2, session_check, engine2)
   \<and> consEnfolpLazy cb_idle model2 session_check engine2
     = Returns (SCIP_OKAY, SCIP_FEASIBLE, model2, session_check\<lparr>checkonly := False\<rparr>, engine2)
   \<and> sol (session_check\<lparr>checkonly := False\<rparr>) = Some 7"
proof -
  have f: "cb_cut_then_fail model2 d u s
             = obind (cb_cut model2 d u s) (\<lambda>(rc, m', d', s'). Returns (CSIP_RETCODE_ERROR, m', d', s'))"
    for d u s
    by (simp add: cb_cut_then_fail_def cb_cut_def)
  have a: "consEnfolpLazy cb_cut_then_fail model2 session0 engine2_rejecting
     = Returns (SCIP_ERROR, SCIP_FEASIBLE, model2, session0\<lparr>checkonly := False, feasible := False\<rparr>,
                engine2_rejecting\<lparr>e_nconss := 1, e_added := [0]\<rparr>)"
    by (simp add: consEnfolpLazy_def Let_def f cb_cut_enforcement)
  have b: "consCheckLazy cb_cut_then_fail model2 session0 (Some 7) engine2_rejecting
     = Returns (SCIP_ERROR, SCIP_FEASIBLE, model2,
                session0\<lparr>checkonly := True, feasible := False, sol := Some 7\<rparr>,
                engine2_rejecting\<lparr>e_nconss := 1\<rparr>)"
    by (simp add: consCheckLazy_def Let_def f cb_cut_check)
  have c: "consCheckLazy cb_idle model2 session0 (Some 7) engine2
     = Returns (SCIP_OKAY, SCIP_FEASIBLE, model2, session_check, engine2)"
    "consEnfolpLazy cb_idle model2 session_check engine2
     = Returns (SCIP_OKAY, SCIP_FEASIBLE, model2, session_check\<lparr>checkonly := False\<rparr>, engine2)"
    "sol (session_check\<lparr>checkonly := False\<rparr>) = Some 7"
    by (simp_all add: consEnfolpLazy_def consCheckLazy_def Let_def cb_idle_def session_check_def
          session0_def)
  from a b c show ?thesis by simp
qed

subsection \<open>The heuristic plugin\<close>

text \<open>
  Claim C7, as the code has it. Whenever \<open>heurExecUser\<close> returns, the slot
  was empty when the callback was run (the first assertion); if the
  callback left the slot empty the result is DIDNOTFIND; if the callback
  returned OK with a candidate in the slot, the candidate was passed to
  \<open>SCIPtrySolFree\<close>, whose return code and state are the handler's, and when
  that code is \<open>SCIP_OKAY\<close> the result is FOUNDSOL exactly when the engine
  stored the candidate; when the handler returns \<open>SCIP_OKAY\<close> the slot is
  empty again. When the callback returns another code the handler returns
  the translated code with DIDNOTFIND. Conversely the handler does return
  in the two regular cases: an OK callback without a candidate, and an OK
  callback with a candidate that the engine takes over and frees.
\<close>

theorem heurExecUser_result:
  "(\<forall>rc res m' h' s'.
      heurExecUser E callback m heurdata s = Returns (rc, res, m', h', s') \<longrightarrow>
        heur_sol heurdata = None
        \<and> (\<exists>crc h1 s1.
              callback m heurdata (heur_userdata heurdata) s = Returns (crc, m', h1, s1)
              \<and> (heur_sol h1 = None \<longrightarrow> res = SCIP_DIDNOTFIND \<and> h' = h1 \<and> s' = s1)
              \<and> (crc \<noteq> CSIP_RETCODE_OK \<longrightarrow>
                    rc = retCodeCSIPtoSCIP crc \<and> rc \<noteq> SCIP_OKAY \<and> res = SCIP_DIDNOTFIND \<and> s' = s1)
              \<and> (crc = CSIP_RETCODE_OK \<longrightarrow>
                   (\<forall>candidate. heur_sol h1 = Some candidate \<longrightarrow>
                      (\<exists>slot stored.
                         SCIPtrySolFree E s1 candidate = (rc, slot, stored, s')
                         \<and> (rc = SCIP_OKAY \<longrightarrow>
                               res = (if stored then SCIP_FOUNDSOL else SCIP_DIDNOTFIND))))))
        \<and> (rc = SCIP_OKAY \<longrightarrow> heur_sol h' = None))
   \<and> (\<forall>m1 h1 s1.
        heur_sol heurdata = None
        \<and> callback m heurdata (heur_userdata heurdata) s = Returns (CSIP_RETCODE_OK, m1, h1, s1) \<longrightarrow>
          (heur_sol h1 = None \<longrightarrow>
             heurExecUser E callback m heurdata s = Returns (SCIP_OKAY, SCIP_DIDNOTFIND, m1, h1, s1))
          \<and> (\<forall>candidate stored s2.
                heur_sol h1 = Some candidate
                \<and> SCIPtrySolFree E s1 candidate = (SCIP_OKAY, None, stored, s2) \<longrightarrow>
                  heurExecUser E callback m heurdata s
                    = Returns (SCIP_OKAY, (if stored then SCIP_FOUNDSOL else SCIP_DIDNOTFIND),
                               m1, h1\<lparr>heur_sol := None\<rparr>, s2)))"
  (is "?returned \<and> ?returns")
proof -
  have bwd: "heur_sol heurdata = None
        \<and> (\<exists>crc h1 s1.
              callback m heurdata (heur_userdata heurdata) s = Returns (crc, m', h1, s1)
              \<and> (heur_sol h1 = None \<longrightarrow> res = SCIP_DIDNOTFIND \<and> h' = h1 \<and> s' = s1)
              \<and> (crc \<noteq> CSIP_RETCODE_OK \<longrightarrow>
                    rc = retCodeCSIPtoSCIP crc \<and> rc \<noteq> SCIP_OKAY \<and> res = SCIP_DIDNOTFIND \<and> s' = s1)
              \<and> (crc = CSIP_RETCODE_OK \<longrightarrow>
                   (\<forall>candidate. heur_sol h1 = Some candidate \<longrightarrow>
                      (\<exists>slot stored.
                         SCIPtrySolFree E s1 candidate = (rc, slot, stored, s')
                         \<and> (rc = SCIP_OKAY \<longrightarrow>
                               res = (if stored then SCIP_FOUNDSOL else SCIP_DIDNOTFIND))))))
        \<and> (rc = SCIP_OKAY \<longrightarrow> heur_sol h' = None)"
    if r: "heurExecUser E callback m heurdata s = Returns (rc, res, m', h', s')"
    for rc res m' h' s'
  proof -
    from r have empty: "heur_sol heurdata = None"
      by (auto simp: heurExecUser_def split: if_splits)
    with r obtain crc m1 h1 s1 where
        cb: "callback m heurdata (heur_userdata heurdata) s = Returns (crc, m1, h1, s1)"
      and k: "(if retCodeCSIPtoSCIP crc \<noteq> SCIP_OKAY
               then Returns (retCodeCSIPtoSCIP crc, SCIP_DIDNOTFIND, m1, h1, s1)
               else case heur_sol h1 of
                 None \<Rightarrow> Returns (SCIP_OKAY, SCIP_DIDNOTFIND, m1, h1, s1)
               | Some candidate \<Rightarrow>
                   (case SCIPtrySolFree E s1 candidate of (rc2, slot, stored, s2) \<Rightarrow>
                      if rc2 \<noteq> SCIP_OKAY
                      then Returns (rc2, SCIP_DIDNOTFIND, m1, h1\<lparr>heur_sol := slot\<rparr>, s2)
                      else if slot \<noteq> None then AssertFailed
                      else Returns (SCIP_OKAY, (if stored then SCIP_FOUNDSOL else SCIP_DIDNOTFIND),
                                    m1, h1\<lparr>heur_sol := slot\<rparr>, s2)))
              = Returns (rc, res, m', h', s')"
      by (auto simp: heurExecUser_def obind_Returns_iff)
    show ?thesis
    proof (cases "heur_sol h1")
      case None
      with k cb empty show ?thesis
        by (auto simp: retCodeCSIPtoSCIP_OKAY split: if_splits)
    next
      case (Some candidate)
      obtain rc2 slot stored s2 where t: "SCIPtrySolFree E s1 candidate = (rc2, slot, stored, s2)"
        by (cases "SCIPtrySolFree E s1 candidate") auto
      with Some k cb empty show ?thesis
        by (auto simp: retCodeCSIPtoSCIP_OKAY split: if_splits)
    qed
  qed
  have fwd: "(heur_sol h1 = None \<longrightarrow>
             heurExecUser E callback m heurdata s = Returns (SCIP_OKAY, SCIP_DIDNOTFIND, m1, h1, s1))
          \<and> (\<forall>candidate stored s2.
                heur_sol h1 = Some candidate
                \<and> SCIPtrySolFree E s1 candidate = (SCIP_OKAY, None, stored, s2) \<longrightarrow>
                  heurExecUser E callback m heurdata s
                    = Returns (SCIP_OKAY, (if stored then SCIP_FOUNDSOL else SCIP_DIDNOTFIND),
                               m1, h1\<lparr>heur_sol := None\<rparr>, s2))"
    if "heur_sol heurdata = None"
      "callback m heurdata (heur_userdata heurdata) s = Returns (CSIP_RETCODE_OK, m1, h1, s1)"
    for m1 h1 s1
    using that by (simp add: heurExecUser_def)
  have a: ?returned
    by (intro allI impI) (erule bwd)
  have b: ?returns
    by (intro allI impI) (erule conjE, erule (1) fwd)
  from a b show ?thesis by (rule conjI)
qed

lemma heur_zero_run:
  "heur_zero model2 heurdata0 u engine2
     = Returns (CSIP_RETCODE_OK, model2, heurdata0\<lparr>heur_sol := Some 0\<rparr>, engine2\<lparr>e_nsols := 1\<rparr>)"
  by (simp add: heur_zero_def CSIPheurSetSolution_def Let_def)
     (simp add: engine_api_def engine2_def engine_init_def)

theorem heurExecUser_result_witness:
  "heur_sol heurdata0 = None
   \<and> heurExecUser engine_api heur_zero model2 heurdata0 engine2
       = Returns (SCIP_OKAY, SCIP_FOUNDSOL, model2, heurdata0, engine2\<lparr>e_nsols := 1\<rparr>)
   \<and> heurExecUser engine_api heur_zero model2 heurdata0 (engine2\<lparr>e_accept := False\<rparr>)
       = Returns (SCIP_OKAY, SCIP_DIDNOTFIND, model2, heurdata0, engine2\<lparr>e_accept := False, e_nsols := 1\<rparr>)
   \<and> heurExecUser engine_api heur_idle model2 heurdata0 engine2
       = Returns (SCIP_OKAY, SCIP_DIDNOTFIND, model2, heurdata0, engine2)"
proof -
  have e: "heur_sol heurdata0 = None" by (simp add: heurdata0_def)
  have z: "heur_zero model2 heurdata0 (heur_userdata heurdata0) (engine2\<lparr>e_accept := False\<rparr>)
     = Returns (CSIP_RETCODE_OK, model2, heurdata0\<lparr>heur_sol := Some 0\<rparr>,
                engine2\<lparr>e_accept := False, e_nsols := 1\<rparr>)"
    by (simp add: heur_zero_def CSIPheurSetSolution_def Let_def)
       (simp add: engine_api_def engine2_def engine_init_def)
  have i: "heur_idle model2 heurdata0 (heur_userdata heurdata0) engine2
     = Returns (CSIP_RETCODE_OK, model2, heurdata0, engine2)"
    by (simp add: heur_idle_def)
  have t1: "SCIPtrySolFree engine_api (engine2\<lparr>e_nsols := 1\<rparr>) 0
              = (SCIP_OKAY, None, True, engine2\<lparr>e_nsols := 1\<rparr>)"
    "SCIPtrySolFree engine_api (engine2\<lparr>e_accept := False, e_nsols := 1\<rparr>) 0
              = (SCIP_OKAY, None, False, engine2\<lparr>e_accept := False, e_nsols := 1\<rparr>)"
    by (simp_all add: engine_api_def engine2_def engine_init_def)
  have s: "heur_sol (heurdata0\<lparr>heur_sol := Some 0\<rparr>) = Some 0"
    "heurdata0\<lparr>heur_sol := Some 0, heur_sol := None\<rparr> = heurdata0"
    by (simp_all add: heurdata0_def)
  note a = heurExecUser_result [of engine_api heur_zero model2 heurdata0 engine2,
             THEN conjunct2, rule_format, OF conjI [OF e heur_zero_run],
             THEN conjunct2, rule_format, OF conjI [OF s(1) t1(1)]]
  note b = heurExecUser_result [of engine_api heur_zero model2 heurdata0 "engine2\<lparr>e_accept := False\<rparr>",
             THEN conjunct2, rule_format, OF conjI [OF e z],
             THEN conjunct2, rule_format, OF conjI [OF s(1) t1(2)]]
  note c = heurExecUser_result [of engine_api heur_idle model2 heurdata0 engine2,
             THEN conjunct2, rule_format, OF conjI [OF e i], THEN conjunct1, rule_format, OF e]
  from a b c e s show ?thesis by simp
qed

text \<open>
  The claim as it was stated fails for a callback that installs a solution
  and then returns an error: the handler returns with the slot still
  holding the solution, which was never submitted.
\<close>

theorem heurExecUser_counterexample:
  "heurExecUser engine_api heur_zero_then_fail model2 heurdata0 engine2
     = Returns (SCIP_ERROR, SCIP_DIDNOTFIND, model2, heurdata0\<lparr>heur_sol := Some 0\<rparr>,
                engine2\<lparr>e_nsols := 1\<rparr>)
   \<and> heur_sol (heurdata0\<lparr>heur_sol := Some 0\<rparr>) \<noteq> None"
proof -
  have f: "heur_zero_then_fail model2 h u s
             = obind (heur_zero model2 h u s) (\<lambda>(rc, m', h', s'). Returns (CSIP_RETCODE_ERROR, m', h', s'))"
    for h u s
    by (simp add: heur_zero_then_fail_def heur_zero_def)
  have e: "heur_sol heurdata0 = None" by (simp add: heurdata0_def)
  show ?thesis
    by (simp add: heurExecUser_def e f heur_zero_run)
qed

subsection \<open>Changing a variable's type\<close>

lemma engine_api_bounds_lens: "bounds_lens engine_api"
  by (simp add: bounds_lens_def engine_api_def)

text \<open>
  Claim C8, as the code has it. Let changing a bound set that bound and
  leave the other one alone. For a type other than binary, \<open>CSIPchgVarType\<close>
  is the engine's type change and nothing more. For binary, when it returns
  OK, the lower bound is exactly 0 if the bound the type change left was
  below 0 and is that bound otherwise, and the upper bound is exactly 1 if
  the bound the type change left was above 1 and is that bound otherwise.
\<close>

theorem CSIPchgVarType_bounds:
  assumes lens: "bounds_lens E"
    and rd: "array_read (vars m) varindex = Returns var"
    and ty: "SCIPchgVarType E s var vartype = (rc, infeas, s1)"
  shows "(vartype \<noteq> CSIP_VARTYPE_BINARY \<longrightarrow>
            CSIPchgVarType E m varindex vartype s = Returns (retCodeSCIPtoCSIP rc, s1))
     \<and> (vartype = CSIP_VARTYPE_BINARY \<longrightarrow>
          (\<forall>s'. CSIPchgVarType E m varindex vartype s = Returns (CSIP_RETCODE_OK, s') \<longrightarrow>
             SCIPvarGetLbLocal E s' var
               = (if dless (SCIPvarGetLbLocal E s1 var) (Fin 0) then Fin 0
                  else SCIPvarGetLbLocal E s1 var)
           \<and> SCIPvarGetUbLocal E s' var
               = (if dless (Fin 1) (SCIPvarGetUbLocal E s1 var) then Fin 1
                  else SCIPvarGetUbLocal E s1 var)))"
proof -
  have other: "CSIPchgVarType E m varindex vartype s = Returns (retCodeSCIPtoCSIP rc, s1)"
    if "vartype \<noteq> CSIP_VARTYPE_BINARY"
    using that rd ty by (cases rc) (simp_all add: CSIPchgVarType_def)
  have binary: "SCIPvarGetLbLocal E s' var
               = (if dless (SCIPvarGetLbLocal E s1 var) (Fin 0) then Fin 0
                  else SCIPvarGetLbLocal E s1 var)
           \<and> SCIPvarGetUbLocal E s' var
               = (if dless (Fin 1) (SCIPvarGetUbLocal E s1 var) then Fin 1
                  else SCIPvarGetUbLocal E s1 var)"
    if b: "vartype = CSIP_VARTYPE_BINARY"
      and r: "CSIPchgVarType E m varindex vartype s = Returns (CSIP_RETCODE_OK, s')"
    for s'
  proof -
    define lo where "lo = dless (SCIPvarGetLbLocal E s1 var) (Fin 0)"
    obtain rc2 s2 where l: "(if lo then SCIPchgVarLb E s1 var (Fin 0) else (SCIP_OKAY, s1)) = (rc2, s2)"
      by (cases "if lo then SCIPchgVarLb E s1 var (Fin 0) else (SCIP_OKAY, s1)") auto
    define hi where "hi = dless (Fin 1) (SCIPvarGetUbLocal E s2 var)"
    obtain rc3 s3 where u: "(if hi then SCIPchgVarUb E s2 var (Fin 1) else (SCIP_OKAY, s2)) = (rc3, s3)"
      by (cases "if hi then SCIPchgVarUb E s2 var (Fin 1) else (SCIP_OKAY, s2)") auto
    from r rd ty b l u have ok: "rc = SCIP_OKAY" "rc2 = SCIP_OKAY" "rc3 = SCIP_OKAY" and s': "s' = s3"
      by (auto simp: CSIPchgVarType_def lo_def hi_def retCodeSCIPtoCSIP_OK split: if_splits)
    from lens l ok have l2: "SCIPvarGetLbLocal E s2 var = (if lo then Fin 0 else SCIPvarGetLbLocal E s1 var)"
      and u2: "SCIPvarGetUbLocal E s2 var = SCIPvarGetUbLocal E s1 var"
      by (auto simp: bounds_lens_def split: if_splits)
    from lens u ok have u3: "SCIPvarGetUbLocal E s3 var = (if hi then Fin 1 else SCIPvarGetUbLocal E s2 var)"
      and l3: "SCIPvarGetLbLocal E s3 var = SCIPvarGetLbLocal E s2 var"
      by (auto simp: bounds_lens_def split: if_splits)
    show ?thesis
      unfolding s' l3 u3 l2 u2 hi_def u2 lo_def by simp
  qed
  from other binary show ?thesis by blast
qed

lemma model2_var0: "array_read (vars model2) 0 = Returns 0"
  by (simp add: model2_reads)

theorem CSIPchgVarType_bounds_witness:
  "bounds_lens engine_api
   \<and> SCIPvarGetLbLocal engine_api engine2 0 = Fin (- 5) \<and> SCIPvarGetUbLocal engine_api engine2 0 = Fin 10
   \<and> (\<exists>s'. CSIPchgVarType engine_api model2 0 CSIP_VARTYPE_BINARY engine2 = Returns (CSIP_RETCODE_OK, s')
         \<and> SCIPvarGetLbLocal engine_api s' 0 = Fin 0 \<and> SCIPvarGetUbLocal engine_api s' 0 = Fin 1)
   \<and> CSIPchgVarType engine_api model2 0 CSIP_VARTYPE_INTEGER engine2 = Returns (CSIP_RETCODE_OK, engine2)"
proof -
  have ty: "SCIPchgVarType engine_api engine2 0 vt = (SCIP_OKAY, False, engine2)" for vt
    by (simp add: engine_api_def)
  have b: "SCIPvarGetLbLocal engine_api engine2 0 = Fin (- 5)" "SCIPvarGetUbLocal engine_api engine2 0 = Fin 10"
    by (simp_all add: engine_api_def engine2_def)
  have r: "\<exists>s'. CSIPchgVarType engine_api model2 0 CSIP_VARTYPE_BINARY engine2 = Returns (CSIP_RETCODE_OK, s')"
    by (simp add: CSIPchgVarType_def model2_var0 ty b)
       (simp add: engine_api_def engine2_def)
  then obtain s' where
    r': "CSIPchgVarType engine_api model2 0 CSIP_VARTYPE_BINARY engine2 = Returns (CSIP_RETCODE_OK, s')"
    by blast
  note t = CSIPchgVarType_bounds [OF engine_api_bounds_lens model2_var0 ty]
  from t [of CSIP_VARTYPE_BINARY, THEN conjunct2, rule_format, OF refl r'] b
  have v: "SCIPvarGetLbLocal engine_api s' 0 = Fin 0" "SCIPvarGetUbLocal engine_api s' 0 = Fin 1"
    by simp_all
  from t [of CSIP_VARTYPE_INTEGER, THEN conjunct1]
  have i: "CSIPchgVarType engine_api model2 0 CSIP_VARTYPE_INTEGER engine2 = Returns (CSIP_RETCODE_OK, engine2)"
    by simp
  from engine_api_bounds_lens b r' v i show ?thesis by blast
qed

text \<open>
  The claim as it was stated fails for a variable with bounds [5, 10]: the
  upper bound becomes 1, the lower bound stays 5, which is not in [0, 1].
\<close>

theorem CSIPchgVarType_counterexample:
  "SCIPvarGetLbLocal engine_api engine2 1 = Fin 5 \<and> SCIPvarGetUbLocal engine_api engine2 1 = Fin 10
   \<and> dless (Fin 1) (SCIPvarGetUbLocal engine_api engine2 1)
   \<and> (\<exists>s'. CSIPchgVarType engine_api model2 1 CSIP_VARTYPE_BINARY engine2 = Returns (CSIP_RETCODE_OK, s')
         \<and> SCIPvarGetLbLocal engine_api s' 1 = Fin 5 \<and> SCIPvarGetUbLocal engine_api s' 1 = Fin 1
         \<and> dless (Fin 1) (SCIPvarGetLbLocal engine_api s' 1))"
proof -
  have b: "SCIPvarGetLbLocal engine_api engine2 1 = Fin 5" "SCIPvarGetUbLocal engine_api engine2 1 = Fin 10"
    by (simp_all add: engine_api_def engine2_def)
  have ty: "SCIPchgVarType engine_api engine2 1 vt = (SCIP_OKAY, False, engine2)" for vt
    by (simp add: engine_api_def)
  have r: "CSIPchgVarType engine_api model2 1 CSIP_VARTYPE_BINARY engine2
             = Returns (CSIP_RETCODE_OK, snd (SCIPchgVarUb engine_api engine2 1 (Fin 1)))"
    by (simp add: CSIPchgVarType_def model2_reads ty)
       (simp add: engine_api_def engine2_def)
  have a: "SCIPvarGetLbLocal engine_api (snd (SCIPchgVarUb engine_api engine2 1 (Fin 1))) 1 = Fin 5"
    "SCIPvarGetUbLocal engine_api (snd (SCIPchgVarUb engine_api engine2 1 (Fin 1))) 1 = Fin 1"
    by (simp_all add: engine_api_def engine2_def)
  from b r a show ?thesis by simp
qed

end
